theory Spec2Isabelle
  imports Complex_Main "HOL-Library.Word" "HOL-Library.Log_Nat"
begin

unbundle bit_operations_syntax

section \<open>The JavaScript values the handlers compute with\<close>

text \<open>
  \<^verbatim>\<open>src/server.js\<close> holds two modules: the Express application (routes and
  \<^verbatim>\<open>/health\<close>) and \<^verbatim>\<open>payments.js\<close>, the five payment handlers and
  \<^verbatim>\<open>getPaypalToken\<close>. The handlers read \<^verbatim>\<open>req.body\<close>, a value parsed from JSON or
  from a form, and coerce it with the operators of the language (\<^verbatim>\<open>!x\<close>, \<^verbatim>\<open>isNaN\<close>,
  \<^verbatim>\<open>Number\<close>, \<^verbatim>\<open>String\<close>, template literals, \<^verbatim>\<open>===\<close>). This first part models
  those operators as ECMA-262 defines them, on the values a parsed body can hold.
\<close>

subsection \<open>Numbers: IEEE 754 doubles\<close>

text \<open>
  A finite number carries its exact value, a rational; \<open>fl\<close> rounds a rational to the
  nearest double (ties to even, overflow to an infinity), and every arithmetic result
  goes through it. The two zeros are identified: the handlers never divide and
  \<^verbatim>\<open>String(-0)\<close> is \<^verbatim>\<open>"0"\<close>, so the sign of zero is not observable here.
\<close>

datatype jsnum = NaN | PosInf | NegInf | Fin rat

function pow_int :: "rat \<Rightarrow> int \<Rightarrow> rat" where
  "pow_int b e = (if e \<le> 0 then 1
                  else if even e then pow_int (b * b) (e div 2)
                  else b * pow_int (b * b) (e div 2))"
  by pat_completeness auto
termination
  by (relation "measure (\<lambda>(b, e). nat e)") auto

definition pow2 :: "int \<Rightarrow> rat" where
  "pow2 e = (if 0 \<le> e then pow_int 2 e else 1 / pow_int 2 (- e))"

definition pow10 :: "int \<Rightarrow> rat" where
  "pow10 e = (if 0 \<le> e then pow_int 10 e else 1 / pow_int 10 (- e))"

text \<open>\<open>ilog2 a\<close> is \<open>\<lfloor>log\<^sub>2 a\<rfloor>\<close> for \<open>a > 0\<close>, from the bit lengths of numerator and denominator.\<close>

definition ilog2 :: "rat \<Rightarrow> int" where
  "ilog2 a = (let (p, q) = quotient_of a; g = bitlen p - bitlen q
              in if pow2 g \<le> a then g else g - 1)"

function ndigits :: "int \<Rightarrow> int" where
  "ndigits n = (if n < 10 then 1 else 1 + ndigits (n div 10))"
  by pat_completeness auto
termination
  by (relation "measure nat") auto

text \<open>\<open>ilog10 a\<close> is \<open>\<lfloor>log\<^sub>1\<^sub>0 a\<rfloor>\<close> for \<open>a > 0\<close>.\<close>

definition ilog10 :: "rat \<Rightarrow> int" where
  "ilog10 a = (if 1 \<le> a then ndigits \<lfloor>a\<rfloor> - 1 else - ndigits (\<lceil>1 / a\<rceil> - 1))"

definition round_half_even :: "rat \<Rightarrow> int" where
  "round_half_even r = (let f = \<lfloor>r\<rfloor>; d = r - of_int f
     in if d < 1 / 2 then f else if 1 / 2 < d then f + 1 else if even f then f else f + 1)"

text \<open>
  Round to nearest, ties to even, in binary64: 53 bits of precision, least exponent
  \<open>-1022\<close> (below it the spacing stays \<open>2\<^sup>-\<^sup>1\<^sup>0\<^sup>7\<^sup>4\<close>: subnormals), and a result of
  \<open>2\<^sup>1\<^sup>0\<^sup>2\<^sup>4\<close> or more is an infinity.
\<close>

definition fl :: "rat \<Rightarrow> jsnum" where
  "fl x = (if x = 0 then Fin 0 else
     let a = \<bar>x\<bar>; e = max (ilog2 a) (- 1022); u = pow2 (e - 52);
         r = of_int (round_half_even (a / u)) * u
     in if pow2 1024 \<le> r then (if 0 < x then PosInf else NegInf)
        else Fin (if 0 < x then r else - r))"

fun js_negative :: "jsnum \<Rightarrow> bool" where
  "js_negative NegInf = True"
| "js_negative (Fin x) = (x < 0)"
| "js_negative _ = False"

text \<open>The operator \<^verbatim>\<open>*\<close> on numbers (ECMA-262, Number::multiply).\<close>

definition js_mul :: "jsnum \<Rightarrow> jsnum \<Rightarrow> jsnum" where
  "js_mul x y = (case (x, y) of
       (Fin a, Fin b) \<Rightarrow> fl (a * b)
     | _ \<Rightarrow> if x = NaN \<or> y = NaN \<or> x = Fin 0 \<or> y = Fin 0 then NaN
            else if js_negative x = js_negative y then PosInf else NegInf)"

text \<open>The operator \<^verbatim>\<open><=\<close> on numbers: false as soon as one side is \<open>NaN\<close>.\<close>

fun js_le :: "jsnum \<Rightarrow> jsnum \<Rightarrow> bool" where
  "js_le NaN _ = False"
| "js_le _ NaN = False"
| "js_le NegInf _ = True"
| "js_le _ PosInf = True"
| "js_le PosInf _ = False"
| "js_le _ NegInf = False"
| "js_le (Fin a) (Fin b) = (a \<le> b)"

text \<open>
  \<^verbatim>\<open>Math.round\<close>: the integer closest to the argument, the one towards \<open>+\<infinity>\<close> of two
  equally close ones. The result of a double is a double, so nothing is rounded twice.
\<close>

fun Math_round :: "jsnum \<Rightarrow> jsnum" where
  "Math_round (Fin x) = Fin (of_int \<lfloor>x + 1 / 2\<rfloor>)"
| "Math_round n = n"

subsection \<open>Number to string (Number::toString, radix 10)\<close>

definition digit_char :: "int \<Rightarrow> char" where
  "digit_char d = char_of (48 + d)"

function decimal :: "int \<Rightarrow> string" where
  "decimal n = (if n < 10 then [digit_char n] else decimal (n div 10) @ [digit_char (n mod 10)])"
  by pat_completeness auto
termination
  by (relation "measure nat") auto

text \<open>
  The standard asks for the least number \<open>k\<close> of digits such that some \<open>k\<close>-digit
  integer \<open>s\<close> and exponent \<open>n\<close> give back the number, \<open>fl (s \<times> 10\<^sup>n\<^sup>-\<^sup>k) = x\<close>, and among
  several \<open>s\<close> for the one closest to \<open>x\<close>. Such an \<open>s\<close> is the floor of
  \<open>x / 10\<^sup>n\<^sup>-\<^sup>k\<close> or its successor; 17 digits always suffice for a double.
\<close>

definition round_trips :: "rat \<Rightarrow> int \<Rightarrow> int list" where
  "round_trips x k = (let sc = pow10 (ilog10 x + 1 - k); lo = \<lfloor>x / sc\<rfloor>
     in filter (\<lambda>s. fl (of_int s * sc) = fl x) [lo, lo + 1])"

definition closest :: "rat \<Rightarrow> int \<Rightarrow> int list \<Rightarrow> int" where
  "closest x k cs = (case cs of
       [lo, hi] \<Rightarrow> (let m = x / pow10 (ilog10 x + 1 - k); a = m - of_int lo; b = of_int hi - m
                    in if a < b then lo else if b < a then hi else if even lo then lo else hi)
     | [s] \<Rightarrow> s
     | _ \<Rightarrow> \<lfloor>x / pow10 (ilog10 x + 1 - k)\<rfloor>)"

definition shortest :: "rat \<Rightarrow> string \<times> int" where
  "shortest x =
     (let k = (case List.find (\<lambda>k. round_trips x k \<noteq> [])
                      [1, 2, 3, 4, 5, 6, 7, 8, 9, 10, 11, 12, 13, 14, 15, 16] of
                 None \<Rightarrow> 17 | Some k \<Rightarrow> k);
          s = closest x k (round_trips x k); n = ilog10 x + 1
      in if of_int s = pow10 k then (''1'', n + 1) else (decimal s, n))"

text \<open>The digits \<open>ds\<close> and the position \<open>n\<close> of the decimal point, laid out as the standard says.\<close>

definition render :: "string \<Rightarrow> int \<Rightarrow> string" where
  "render ds n = (let k = int (length ds) in
     if k \<le> n \<and> n \<le> 21 then ds @ replicate (nat (n - k)) (CHR ''0'')
     else if 0 < n \<and> n \<le> 21 then take (nat n) ds @ ''.'' @ drop (nat n) ds
     else if - 6 < n \<and> n \<le> 0 then ''0.'' @ replicate (nat (- n)) (CHR ''0'') @ ds
     else (let e = n - 1; es = (if 0 \<le> e then ''+'' else ''-'') @ decimal \<bar>e\<bar>
           in if k = 1 then ds @ ''e'' @ es else take 1 ds @ ''.'' @ drop 1 ds @ ''e'' @ es))"

fun num_to_string :: "jsnum \<Rightarrow> string" where
  "num_to_string NaN = ''NaN''"
| "num_to_string PosInf = ''Infinity''"
| "num_to_string NegInf = ''-Infinity''"
| "num_to_string (Fin x) =
     (if x = 0 then ''0''
      else if x < 0 then ''-'' @ (case shortest (- x) of (ds, n) \<Rightarrow> render ds n)
      else (case shortest x of (ds, n) \<Rightarrow> render ds n))"

subsection \<open>String to number (StringToNumber)\<close>

text \<open>
  A string is modelled by its UTF-8 bytes. The white space and line terminators that
  StringToNumber strips (TAB, LF, VT, FF, CR, SP, NBSP, the Unicode space separators,
  LS, PS and the byte order mark), each as its UTF-8 encoding:
\<close>

definition ws_chars :: "string list" where
  "ws_chars = [[CHR 0x09], [CHR 0x0A], [CHR 0x0B], [CHR 0x0C], [CHR 0x0D], [CHR 0x20],
     [CHR 0xC2, CHR 0xA0], [CHR 0xE1, CHR 0x9A, CHR 0x80],
     [CHR 0xE2, CHR 0x80, CHR 0x80], [CHR 0xE2, CHR 0x80, CHR 0x81], [CHR 0xE2, CHR 0x80, CHR 0x82],
     [CHR 0xE2, CHR 0x80, CHR 0x83], [CHR 0xE2, CHR 0x80, CHR 0x84], [CHR 0xE2, CHR 0x80, CHR 0x85],
     [CHR 0xE2, CHR 0x80, CHR 0x86], [CHR 0xE2, CHR 0x80, CHR 0x87], [CHR 0xE2, CHR 0x80, CHR 0x88],
     [CHR 0xE2, CHR 0x80, CHR 0x89], [CHR 0xE2, CHR 0x80, CHR 0x8A],
     [CHR 0xE2, CHR 0x80, CHR 0xA8], [CHR 0xE2, CHR 0x80, CHR 0xA9], [CHR 0xE2, CHR 0x80, CHR 0xAF],
     [CHR 0xE2, CHR 0x81, CHR 0x9F], [CHR 0xE3, CHR 0x80, CHR 0x80], [CHR 0xEF, CHR 0xBB, CHR 0xBF]]"

definition ws_prefix :: "string \<Rightarrow> nat" where
  "ws_prefix s = (case List.find (\<lambda>w. take (length w) s = w) ws_chars of
                    None \<Rightarrow> 0 | Some w \<Rightarrow> length w)"

function trim_start :: "string \<Rightarrow> string" where
  "trim_start s = (if ws_prefix s = 0 \<or> s = [] then s else trim_start (drop (ws_prefix s) s))"
  by pat_completeness auto
termination
  by (relation "measure length") auto

definition ws_suffix :: "string \<Rightarrow> nat" where
  "ws_suffix s = (case List.find (\<lambda>w. drop (length s - length w) s = w) ws_chars of
                    None \<Rightarrow> 0 | Some w \<Rightarrow> length w)"

function trim_end :: "string \<Rightarrow> string" where
  "trim_end s = (if ws_suffix s = 0 \<or> s = [] then s else trim_end (take (length s - ws_suffix s) s))"
  by pat_completeness auto
termination
  by (relation "measure length") auto

definition digit_val :: "char \<Rightarrow> int option" where
  "digit_val c = (let n = (of_char c :: int) in
     if 48 \<le> n \<and> n \<le> 57 then Some (n - 48)
     else if 97 \<le> n \<and> n \<le> 102 then Some (n - 87)
     else if 65 \<le> n \<and> n \<le> 70 then Some (n - 55)
     else None)"

definition is_digit :: "int \<Rightarrow> char \<Rightarrow> bool" where
  "is_digit b c = (case digit_val c of None \<Rightarrow> False | Some d \<Rightarrow> d < b)"

definition digits_val :: "int \<Rightarrow> string \<Rightarrow> int" where
  "digits_val b s = foldl (\<lambda>a c. b * a + (case digit_val c of None \<Rightarrow> 0 | Some d \<Rightarrow> d)) 0 s"

definition all_digits :: "int \<Rightarrow> string \<Rightarrow> bool" where
  "all_digits b s = (s \<noteq> [] \<and> list_all (is_digit b) s)"

text \<open>ExponentPart: absent, or \<^verbatim>\<open>e\<close>/\<^verbatim>\<open>E\<close>, an optional sign and at least one digit.\<close>

definition parse_exponent :: "string \<Rightarrow> int option" where
  "parse_exponent s = (case s of
       [] \<Rightarrow> Some 0
     | c # r \<Rightarrow>
         if c = CHR ''e'' \<or> c = CHR ''E'' then
           (case r of
              [] \<Rightarrow> None
            | d # r' \<Rightarrow>
                if d = CHR ''+'' then (if all_digits 10 r' then Some (digits_val 10 r') else None)
                else if d = CHR ''-'' then (if all_digits 10 r' then Some (- digits_val 10 r') else None)
                else (if all_digits 10 r then Some (digits_val 10 r) else None))
         else None)"

text \<open>StrUnsignedDecimalLiteral other than \<^verbatim>\<open>Infinity\<close>: its mathematical value.\<close>

definition parse_decimal :: "string \<Rightarrow> rat option" where
  "parse_decimal s = (let ip = takeWhile (is_digit 10) s; r1 = dropWhile (is_digit 10) s in
     case r1 of
       [] \<Rightarrow> if ip = [] then None else Some (of_int (digits_val 10 ip))
     | c # r2 \<Rightarrow>
         if c = CHR ''.'' then
           (let fp = takeWhile (is_digit 10) r2; r3 = dropWhile (is_digit 10) r2 in
            if ip = [] \<and> fp = [] then None
            else (case parse_exponent r3 of
                    None \<Rightarrow> None
                  | Some e \<Rightarrow> Some (of_int (digits_val 10 (ip @ fp)) * pow10 (e - int (length fp)))))
         else if ip = [] then None
         else (case parse_exponent r1 of
                 None \<Rightarrow> None
               | Some e \<Rightarrow> Some (of_int (digits_val 10 ip) * pow10 e)))"

definition parse_unsigned :: "string \<Rightarrow> jsnum" where
  "parse_unsigned s = (if s = ''Infinity'' then PosInf
     else (case parse_decimal s of None \<Rightarrow> NaN | Some v \<Rightarrow> fl v))"

fun js_negate :: "jsnum \<Rightarrow> jsnum" where
  "js_negate NaN = NaN"
| "js_negate PosInf = NegInf"
| "js_negate NegInf = PosInf"
| "js_negate (Fin x) = Fin (- x)"

definition parse_radix :: "int \<Rightarrow> string \<Rightarrow> jsnum" where
  "parse_radix b s = (if all_digits b s then fl (of_int (digits_val b s)) else NaN)"

text \<open>
  The empty (or all-blank) string is \<open>0\<close>; a sign is allowed before a decimal literal
  only; what is not a numeric literal as a whole is \<open>NaN\<close>.
\<close>

definition string_to_number :: "string \<Rightarrow> jsnum" where
  "string_to_number s = (let t = trim_end (trim_start s) in
     case t of
       [] \<Rightarrow> Fin 0
     | c # r \<Rightarrow>
         if c = CHR ''+'' then parse_unsigned r
         else if c = CHR ''-'' then js_negate (parse_unsigned r)
         else if take 2 t = ''0x'' \<or> take 2 t = ''0X'' then parse_radix 16 (drop 2 t)
         else if take 2 t = ''0o'' \<or> take 2 t = ''0O'' then parse_radix 8 (drop 2 t)
         else if take 2 t = ''0b'' \<or> take 2 t = ''0B'' then parse_radix 2 (drop 2 t)
         else parse_unsigned t)"

subsection \<open>Values\<close>

text \<open>
  What \<^verbatim>\<open>req.body\<close> and the providers' answers are made of. An object is the table of
  its own properties, in their enumeration order and without repeated keys; it
  inherits from \<^verbatim>\<open>Object.prototype\<close>, an array from \<^verbatim>\<open>Array.prototype\<close>. No parsed
  value holds a function.
\<close>

datatype jsval =
    JUndefined
  | JNull
  | JBool bool
  | JNum jsnum
  | JStr string
  | JArr "jsval list"
  | JObj "(string \<times> jsval) list"

definition nullish :: "jsval \<Rightarrow> bool" where
  "nullish v = (v = JUndefined \<or> v = JNull)"

text \<open>ToBoolean: what \<^verbatim>\<open>!x\<close>, \<^verbatim>\<open>x || y\<close> and \<^verbatim>\<open>if (x)\<close> test.\<close>

fun truthy :: "jsval \<Rightarrow> bool" where
  "truthy JUndefined = False"
| "truthy JNull = False"
| "truthy (JBool b) = b"
| "truthy (JNum n) = (n \<noteq> NaN \<and> n \<noteq> Fin 0)"
| "truthy (JStr s) = (s \<noteq> [])"
| "truthy (JArr xs) = True"
| "truthy (JObj kvs) = True"

text \<open>\<^verbatim>\<open>a || b\<close> and a destructuring default \<^verbatim>\<open>{ x = d }\<close> (taken for \<^verbatim>\<open>undefined\<close> only).\<close>

definition js_or :: "jsval \<Rightarrow> jsval \<Rightarrow> jsval" where
  "js_or a b = (if truthy a then a else b)"

definition default_to :: "jsval \<Rightarrow> jsval \<Rightarrow> jsval" where
  "default_to v d = (if v = JUndefined then d else v)"

text \<open>
  An error object, by its \<^verbatim>\<open>message\<close>. The messages of the \<^verbatim>\<open>TypeError\<close>s the engine
  raises are worded as V8, the engine of Node.js, words them.
\<close>

definition js_error :: "string \<Rightarrow> jsval" where
  "js_error msg = JObj [(''message'', JStr msg)]"

definition read_error :: "jsval \<Rightarrow> string \<Rightarrow> jsval" where
  "read_error v k = js_error (''Cannot read properties of ''
      @ (if v = JNull then ''null'' else ''undefined'') @ '' (reading '' @ [CHR 0x27] @ k @ [CHR 0x27] @ '')'')"

text \<open>
  Reading the property \<open>k\<close>. The names the handlers read (\<^verbatim>\<open>amount\<close>, \<^verbatim>\<open>razor\<close>,
  \<^verbatim>\<open>name\<close>, \<^verbatim>\<open>data\<close>, \<^verbatim>\<open>message\<close>, ...) are defined by none of the built-in prototypes,
  so the value is the own property or \<^verbatim>\<open>undefined\<close>; \<^verbatim>\<open>undefined\<close> and \<^verbatim>\<open>null\<close> have
  no properties and reading one throws.
\<close>

fun own_prop :: "jsval \<Rightarrow> string \<Rightarrow> jsval" where
  "own_prop (JObj kvs) k = (case map_of kvs k of None \<Rightarrow> JUndefined | Some v \<Rightarrow> v)"
| "own_prop _ k = JUndefined"

definition get_prop :: "jsval \<Rightarrow> string \<Rightarrow> jsval + jsval" where
  "get_prop v k = (if nullish v then Inl (read_error v k) else Inr (own_prop v k))"

text \<open>Optional chaining \<^verbatim>\<open>v?.k\<close>.\<close>

definition opt_prop :: "jsval \<Rightarrow> string \<Rightarrow> jsval" where
  "opt_prop v k = (if nullish v then JUndefined else own_prop v k)"

fun intercalate :: "string \<Rightarrow> string list \<Rightarrow> string" where
  "intercalate sep [] = []"
| "intercalate sep [s] = s"
| "intercalate sep (s # t # r) = s @ sep @ intercalate sep (t # r)"

text \<open>
  ToString, as \<^verbatim>\<open>String(v)\<close> and template literals apply it; \<open>Inl\<close> is a thrown value.
  An array is the join of its elements with a comma (\<^verbatim>\<open>undefined\<close> and \<^verbatim>\<open>null\<close>
  elements give the empty string). A plain object is \<^verbatim>\<open>[object Object]\<close> through the
  inherited \<^verbatim>\<open>toString\<close>; when it has an own property \<^verbatim>\<open>toString\<close>, which is not
  callable, ToPrimitive finds no method that returns a primitive and throws.
\<close>

fun to_string :: "jsval \<Rightarrow> jsval + string"
  and elems_to_strings :: "jsval list \<Rightarrow> jsval + string list" where
  "to_string JUndefined = Inr ''undefined''"
| "to_string JNull = Inr ''null''"
| "to_string (JBool b) = Inr (if b then ''true'' else ''false'')"
| "to_string (JNum n) = Inr (num_to_string n)"
| "to_string (JStr s) = Inr s"
| "to_string (JArr xs) =
     (case elems_to_strings xs of Inl e \<Rightarrow> Inl e | Inr ss \<Rightarrow> Inr (intercalate '','' ss))"
| "to_string (JObj kvs) =
     (if map_of kvs ''toString'' = None then Inr ''[object Object]''
      else Inl (js_error ''Cannot convert object to primitive value''))"
| "elems_to_strings [] = Inr []"
| "elems_to_strings (x # xs) =
     (case (if x = JUndefined \<or> x = JNull then Inr [] else to_string x) of
        Inl e \<Rightarrow> Inl e
      | Inr s \<Rightarrow> (case elems_to_strings xs of Inl e \<Rightarrow> Inl e | Inr ss \<Rightarrow> Inr (s # ss)))"

text \<open>ToNumber, as \<^verbatim>\<open>Number(v)\<close> and \<^verbatim>\<open>isNaN(v)\<close> apply it.\<close>

fun to_number :: "jsval \<Rightarrow> jsval + jsnum" where
  "to_number JUndefined = Inr NaN"
| "to_number JNull = Inr (Fin 0)"
| "to_number (JBool b) = Inr (Fin (if b then 1 else 0))"
| "to_number (JNum n) = Inr n"
| "to_number (JStr s) = Inr (string_to_number s)"
| "to_number v = (case to_string v of Inl e \<Rightarrow> Inl e | Inr s \<Rightarrow> Inr (string_to_number s))"

text \<open>
  The letters of ASCII in lower case, every other byte as it is: how Express compares
  the path of a request with the path of a route, and what
  \<^verbatim>\<open>String.prototype.toLowerCase\<close> does to a string of ASCII characters.
\<close>

definition lower_char :: "char \<Rightarrow> char" where
  "lower_char c = (let n = (of_char c :: int) in if 65 \<le> n \<and> n \<le> 90 then char_of (n + 32) else c)"

definition ascii_lower :: "string \<Rightarrow> string" where
  "ascii_lower s = map lower_char s"

subsection \<open>\<^verbatim>\<open>JSON.stringify\<close>\<close>

definition hex_digit :: "int \<Rightarrow> char" where
  "hex_digit d = (if d < 10 then char_of (48 + d) else char_of (87 + d))"

definition json_escape :: "char \<Rightarrow> string" where
  "json_escape c = (let n = (of_char c :: int) in
     if c = CHR 0x22 then [CHR 0x5C, CHR 0x22]
     else if c = CHR 0x5C then [CHR 0x5C, CHR 0x5C]
     else if n = 8 then [CHR 0x5C, CHR ''b'']
     else if n = 9 then [CHR 0x5C, CHR ''t'']
     else if n = 10 then [CHR 0x5C, CHR ''n'']
     else if n = 12 then [CHR 0x5C, CHR ''f'']
     else if n = 13 then [CHR 0x5C, CHR ''r'']
     else if n < 32 then [CHR 0x5C, CHR ''u'', CHR ''0'', CHR ''0'', hex_digit (n div 16), hex_digit (n mod 16)]
     else [c])"

definition json_quote :: "string \<Rightarrow> string" where
  "json_quote s = [CHR 0x22] @ concat (map json_escape s) @ [CHR 0x22]"

text \<open>
  \<open>None\<close> is the result \<^verbatim>\<open>undefined\<close>. A property whose value is \<^verbatim>\<open>undefined\<close> is
  left out of an object and written \<^verbatim>\<open>null\<close> in an array; a number that is not finite
  is written \<^verbatim>\<open>null\<close>.
\<close>

fun json_stringify :: "jsval \<Rightarrow> string option"
  and json_elems :: "jsval list \<Rightarrow> string list"
  and json_props :: "(string \<times> jsval) list \<Rightarrow> string list" where
  "json_stringify JUndefined = None"
| "json_stringify JNull = Some ''null''"
| "json_stringify (JBool b) = Some (if b then ''true'' else ''false'')"
| "json_stringify (JNum n) = Some (case n of Fin x \<Rightarrow> num_to_string n | _ \<Rightarrow> ''null'')"
| "json_stringify (JStr s) = Some (json_quote s)"
| "json_stringify (JArr xs) = Some (''['' @ intercalate '','' (json_elems xs) @ '']'')"
| "json_stringify (JObj kvs) = Some (''{'' @ intercalate '','' (json_props kvs) @ ''}'')"
| "json_elems [] = []"
| "json_elems (x # xs) =
     (case json_stringify x of None \<Rightarrow> ''null'' | Some s \<Rightarrow> s) # json_elems xs"
| "json_props [] = []"
| "json_props ((k, v) # kvs) =
     (case json_stringify v of None \<Rightarrow> json_props kvs
      | Some s \<Rightarrow> (json_quote k @ '':'' @ s) # json_props kvs)"

section \<open>The library functions the handlers call\<close>

subsection \<open>SHA-256 (FIPS 180-4) and HMAC (RFC 2104)\<close>

type_synonym byte = "8 word"

type_synonym sha_state =
  "32 word \<times> 32 word \<times> 32 word \<times> 32 word \<times> 32 word \<times> 32 word \<times> 32 word \<times> 32 word"

definition K256 :: "32 word list" where
  "K256 = [
    0x428A2F98, 0x71374491, 0xB5C0FBCF, 0xE9B5DBA5, 0x3956C25B, 0x59F111F1, 0x923F82A4, 0xAB1C5ED5,
    0xD807AA98, 0x12835B01, 0x243185BE, 0x550C7DC3, 0x72BE5D74, 0x80DEB1FE, 0x9BDC06A7, 0xC19BF174,
    0xE49B69C1, 0xEFBE4786, 0x0FC19DC6, 0x240CA1CC, 0x2DE92C6F, 0x4A7484AA, 0x5CB0A9DC, 0x76F988DA,
    0x983E5152, 0xA831C66D, 0xB00327C8, 0xBF597FC7, 0xC6E00BF3, 0xD5A79147, 0x06CA6351, 0x14292967,
    0x27B70A85, 0x2E1B2138, 0x4D2C6DFC, 0x53380D13, 0x650A7354, 0x766A0ABB, 0x81C2C92E, 0x92722C85,
    0xA2BFE8A1, 0xA81A664B, 0xC24B8B70, 0xC76C51A3, 0xD192E819, 0xD6990624, 0xF40E3585, 0x106AA070,
    0x19A4C116, 0x1E376C08, 0x2748774C, 0x34B0BCB5, 0x391C0CB3, 0x4ED8AA4A, 0x5B9CCA4F, 0x682E6FF3,
    0x748F82EE, 0x78A5636F, 0x84C87814, 0x8CC70208, 0x90BEFFFA, 0xA4506CEB, 0xBEF9A3F7, 0xC67178F2]"

definition H256 :: sha_state where
  "H256 = (0x6A09E667, 0xBB67AE85, 0x3C6EF372, 0xA54FF53A,
           0x510E527F, 0x9B05688C, 0x1F83D9AB, 0x5BE0CD19)"

definition rotr :: "nat \<Rightarrow> 32 word \<Rightarrow> 32 word" where
  "rotr n x = drop_bit n x OR push_bit (32 - n) x"

definition bsig0 :: "32 word \<Rightarrow> 32 word" where
  "bsig0 x = rotr 2 x XOR rotr 13 x XOR rotr 22 x"

definition bsig1 :: "32 word \<Rightarrow> 32 word" where
  "bsig1 x = rotr 6 x XOR rotr 11 x XOR rotr 25 x"

definition ssig0 :: "32 word \<Rightarrow> 32 word" where
  "ssig0 x = rotr 7 x XOR rotr 18 x XOR drop_bit 3 x"

definition ssig1 :: "32 word \<Rightarrow> 32 word" where
  "ssig1 x = rotr 17 x XOR rotr 19 x XOR drop_bit 10 x"

definition ch :: "32 word \<Rightarrow> 32 word \<Rightarrow> 32 word \<Rightarrow> 32 word" where
  "ch x y z = (x AND y) XOR (NOT x AND z)"

definition maj :: "32 word \<Rightarrow> 32 word \<Rightarrow> 32 word \<Rightarrow> 32 word" where
  "maj x y z = (x AND y) XOR (x AND z) XOR (y AND z)"

definition be64 :: "64 word \<Rightarrow> byte list" where
  "be64 n = map (\<lambda>i. ucast (drop_bit i n)) [56, 48, 40, 32, 24, 16, 8, 0]"

text \<open>Padding: a one bit, zeros up to 56 modulo 64 bytes, the length in bits on 8 bytes.\<close>

definition sha_pad :: "byte list \<Rightarrow> byte list" where
  "sha_pad m = m @ [0x80] @ replicate ((119 - length m mod 64) mod 64) 0
                 @ be64 (8 * of_nat (length m))"

fun be_words :: "byte list \<Rightarrow> 32 word list" where
  "be_words (a # b # c # d # r) =
     (push_bit 24 (ucast a) OR push_bit 16 (ucast b) OR push_bit 8 (ucast c) OR ucast d) # be_words r"
| "be_words _ = []"

text \<open>The message schedule, kept with the most recent word first.\<close>

fun schedule :: "nat \<Rightarrow> 32 word list \<Rightarrow> 32 word list" where
  "schedule 0 w = w"
| "schedule (Suc n) w =
     schedule n ((ssig1 (w ! 1) + w ! 6 + ssig0 (w ! 14) + w ! 15) # w)"

definition word_bytes :: "32 word \<Rightarrow> byte list" where
  "word_bytes w = [ucast (drop_bit 24 w), ucast (drop_bit 16 w), ucast (drop_bit 8 w), ucast w]"

fun sha_round :: "sha_state \<Rightarrow> 32 word \<times> 32 word \<Rightarrow> sha_state" where
  "sha_round (a, b, c, d, e, f, g, h) (k, w) =
     (let t1 = h + bsig1 e + ch e f g + k + w; t2 = bsig0 a + maj a b c
      in (t1 + t2, a, b, c, d + t1, e, f, g))"

fun add_state :: "sha_state \<Rightarrow> sha_state \<Rightarrow> sha_state" where
  "add_state (a, b, c, d, e, f, g, h) (a', b', c', d', e', f', g', h') =
     (a + a', b + b', c + c', d + d', e + e', f + f', g + g', h + h')"

fun state_bytes :: "sha_state \<Rightarrow> byte list" where
  "state_bytes (a, b, c, d, e, f, g, h) = concat (map word_bytes [a, b, c, d, e, f, g, h])"

definition compress :: "sha_state \<Rightarrow> 32 word list \<Rightarrow> sha_state" where
  "compress hs blk = add_state hs (foldl sha_round hs (zip K256 (rev (schedule 48 (rev blk)))))"

function blocks :: "32 word list \<Rightarrow> 32 word list list" where
  "blocks ws = (if length ws < 16 then [] else take 16 ws # blocks (drop 16 ws))"
  by pat_completeness auto
termination
  by (relation "measure length") auto

definition sha256 :: "byte list \<Rightarrow> byte list" where
  "sha256 m = state_bytes (foldl compress H256 (blocks (be_words (sha_pad m))))"

definition hmac_sha256 :: "byte list \<Rightarrow> byte list \<Rightarrow> byte list" where
  "hmac_sha256 key msg =
     (let k0 = (if 64 < length key then sha256 key else key);
          k = k0 @ replicate (64 - length k0) 0
      in sha256 (map (\<lambda>b. b XOR 0x5C) k @ sha256 (map (\<lambda>b. b XOR 0x36) k @ msg)))"

text \<open>\<^verbatim>\<open>digest('hex')\<close>: two lower-case hexadecimal digits for each byte.\<close>

definition hex :: "byte list \<Rightarrow> string" where
  "hex bs = concat (map (\<lambda>b. [hex_digit (uint b div 16), hex_digit (uint b mod 16)]) bs)"

text \<open>A string handed to \<^verbatim>\<open>crypto\<close> or to \<^verbatim>\<open>Buffer.from\<close> is taken as its UTF-8 bytes.\<close>

definition utf8 :: "string \<Rightarrow> byte list" where
  "utf8 s = map of_char s"

text \<open>\<^verbatim>\<open>crypto.createHmac('sha256', key).update(msg).digest('hex')\<close>\<close>

definition createHmac_sha256_hex :: "string \<Rightarrow> string \<Rightarrow> string" where
  "createHmac_sha256_hex key msg = hex (hmac_sha256 (utf8 key) (utf8 msg))"

subsection \<open>Base64 (\<^verbatim>\<open>Buffer.from(s).toString('base64')\<close>)\<close>

definition b64_char :: "int \<Rightarrow> char" where
  "b64_char n = (if n < 26 then char_of (65 + n) else if n < 52 then char_of (71 + n)
                 else if n < 62 then char_of (n - 4) else if n = 62 then CHR ''+'' else CHR ''/'')"

fun base64 :: "byte list \<Rightarrow> string" where
  "base64 (a # b # c # r) =
     (let n = uint a * 65536 + uint b * 256 + uint c
      in [b64_char (n div 262144), b64_char (n div 4096 mod 64),
          b64_char (n div 64 mod 64), b64_char (n mod 64)] @ base64 r)"
| "base64 [a, b] =
     (let n = uint a * 65536 + uint b * 256
      in [b64_char (n div 262144), b64_char (n div 4096 mod 64), b64_char (n div 64 mod 64), CHR ''=''])"
| "base64 [a] =
     (let n = uint a * 65536
      in [b64_char (n div 262144), b64_char (n div 4096 mod 64), CHR ''='', CHR ''=''])"
| "base64 [] = []"

section \<open>Configuration, requests and effects\<close>

text \<open>
  \<^verbatim>\<open>process.env\<close>, read once when \<^verbatim>\<open>payments.js\<close> is loaded: each key is
  \<^verbatim>\<open>process.env.KEY || ''\<close>.
\<close>

type_synonym process_env = "string \<Rightarrow> string option"

definition env_or_empty :: "process_env \<Rightarrow> string \<Rightarrow> string" where
  "env_or_empty env k = (case env k of None \<Rightarrow> [] | Some v \<Rightarrow> v)"

definition RAZORPAY_KEY_ID :: "process_env \<Rightarrow> string" where
  "RAZORPAY_KEY_ID env = env_or_empty env ''RAZORPAY_KEY_ID''"

definition RAZORPAY_KEY_SECRET :: "process_env \<Rightarrow> string" where
  "RAZORPAY_KEY_SECRET env = env_or_empty env ''RAZORPAY_KEY_SECRET''"

definition STRIPE_SECRET :: "process_env \<Rightarrow> string" where
  "STRIPE_SECRET env = env_or_empty env ''STRIPE_SECRET_KEY''"

definition PAYPAL_CLIENT :: "process_env \<Rightarrow> string" where
  "PAYPAL_CLIENT env = env_or_empty env ''PAYPAL_CLIENT_ID''"

definition PAYPAL_SECRET :: "process_env \<Rightarrow> string" where
  "PAYPAL_SECRET env = env_or_empty env ''PAYPAL_CLIENT_SECRET''"

definition PAYPAL_API :: "process_env \<Rightarrow> string" where
  "PAYPAL_API env = (if env ''PAYPAL_MODE'' = Some ''live''
                     then ''https://api-m.paypal.com'' else ''https://api-m.sandbox.paypal.com'')"

text \<open>
  The outbound calls. The two SDK clients are built from the keys when the module is
  loaded, so a call through one carries them; an \<^verbatim>\<open>axios.post\<close> has its URL, its
  data and its configuration.
\<close>

datatype call =
    Razorpay_orders_create string string jsval
  | Stripe_checkout_sessions_create string jsval
  | Axios_post string jsval jsval

text \<open>
  What the source leaves to its surroundings: how each awaited call settles (\<open>Inr\<close>
  the value it resolves to, \<open>Inl\<close> the value it rejects with), the clock read by
  \<^verbatim>\<open>Date.now()\<close>, and \<^verbatim>\<open>String.prototype.toLowerCase\<close>, whose mapping of the cased
  letters of Unicode is a table of the engine.
\<close>

record world =
  provider :: "call \<Rightarrow> jsval + jsval"
  now :: int
  toLowerCase :: "string \<Rightarrow> string"

text \<open>Of a request the handlers read \<^verbatim>\<open>req.body\<close> and \<^verbatim>\<open>req.headers.origin\<close>.\<close>

record request =
  body :: jsval
  origin :: "string option"

text \<open>\<^verbatim>\<open>res.status(s).json(v)\<close>; \<^verbatim>\<open>res.json(v)\<close> alone answers 200.\<close>

record response =
  status :: nat
  json :: jsval

text \<open>
  A handler answers, or its promise rejects with nothing to catch it (\<open>Unhandled\<close>);
  the catch-all route answers with a file. Writing to the console is not modelled,
  except where evaluating what is logged can throw.
\<close>

datatype outcome = Responded response | SentFile string | Unhandled jsval

type_synonym handler = "process_env \<Rightarrow> world \<Rightarrow> request \<Rightarrow> call list \<times> outcome"

text \<open>
  What a \<^verbatim>\<open>try\<close> block comes to: the calls made, then either the thrown value or the
  response returned.
\<close>

type_synonym attempt = "call list \<times> (jsval + response)"

text \<open>\<^verbatim>\<open>const { k, ... } = req.body\<close> throws when the body is \<^verbatim>\<open>undefined\<close> or \<^verbatim>\<open>null\<close>.\<close>

definition destructure_error :: "jsval \<Rightarrow> string \<Rightarrow> jsval" where
  "destructure_error v k = js_error (''Cannot destructure property '' @ [CHR 0x27] @ k @ [CHR 0x27]
      @ '' of '' @ [CHR 0x27] @ ''req.body'' @ [CHR 0x27] @ '' as it is ''
      @ (if v = JNull then ''null'' else ''undefined'') @ ''.'')"

section \<open>\<^verbatim>\<open>payments.js\<close>\<close>

text \<open>
  The test each of the three create handlers starts with:
  \<^verbatim>\<open>!amount || isNaN(amount) || Number(amount) <= 0\<close>. The coercion can throw.
\<close>

definition invalid_amount :: "jsval \<Rightarrow> jsval + bool" where
  "invalid_amount amount =
     (if \<not> truthy amount then Inr True
      else (case to_number amount of
              Inl e \<Rightarrow> Inl e
            | Inr n \<Rightarrow> Inr (n = NaN \<or> js_le n (Fin 0))))"

subsection \<open>\<^verbatim>\<open>getPaypalToken\<close>\<close>

definition getPaypalToken :: "process_env \<Rightarrow> world \<Rightarrow> call list \<times> (jsval + jsval)" where
  "getPaypalToken env w =
     (if PAYPAL_CLIENT env = [] \<or> PAYPAL_SECRET env = []
      then ([], Inl (js_error ''PayPal credentials missing''))
      else
        let auth = base64 (utf8 (PAYPAL_CLIENT env @ '':'' @ PAYPAL_SECRET env));
            c = Axios_post (PAYPAL_API env @ ''/v1/oauth2/token'')
                  (JStr ''grant_type=client_credentials'')
                  (JObj [(''headers'', JObj [(''Authorization'', JStr (''Basic '' @ auth)),
                     (''Content-Type'', JStr ''application/x-www-form-urlencoded'')])])
        in (case provider w c of
              Inl e \<Rightarrow> ([c], Inl e)
            | Inr resp \<Rightarrow>
                (case get_prop resp ''data'' of
                   Inl e \<Rightarrow> ([c], Inl e)
                 | Inr d \<Rightarrow> ([c], get_prop d ''access_token''))))"

subsection \<open>\<^verbatim>\<open>createRazorpayOrder\<close>\<close>

text \<open>
  The argument of \<^verbatim>\<open>razorpay.orders.create\<close>:
  \<^verbatim>\<open>{ amount: amountPaise, currency, receipt: `booking_${Date.now()}`, payment_capture: 1 }\<close>
\<close>

definition razorpay_order_options :: "jsnum \<Rightarrow> jsval \<Rightarrow> int \<Rightarrow> jsval" where
  "razorpay_order_options amountPaise currency t =
     JObj [(''amount'', JNum amountPaise),
           (''currency'', currency),
           (''receipt'', JStr (''booking_'' @ num_to_string (Fin (of_int t)))),
           (''payment_capture'', JNum (Fin 1))]"

definition createRazorpayOrder_try :: "process_env \<Rightarrow> world \<Rightarrow> request \<Rightarrow> attempt" where
  "createRazorpayOrder_try env w req =
     (if nullish (body req) then ([], Inl (destructure_error (body req) ''amount''))
      else
        let amount = own_prop (body req) ''amount'';
            currency = default_to (own_prop (body req) ''currency'') (JStr ''INR'')
        in (case invalid_amount amount of
              Inl e \<Rightarrow> ([], Inl e)
            | Inr True \<Rightarrow>
                ([], Inr \<lparr>status = 400,
                   json = JObj [(''error'', JStr ''Invalid amount. Send amount in rupees (number).'')]\<rparr>)
            | Inr False \<Rightarrow>
                (case to_number amount of
                   Inl e \<Rightarrow> ([], Inl e)
                 | Inr n \<Rightarrow>
                     let amountPaise = Math_round (js_mul n (Fin 100));
                         c = Razorpay_orders_create (RAZORPAY_KEY_ID env) (RAZORPAY_KEY_SECRET env)
                               (razorpay_order_options amountPaise currency (now w))
                     in (case provider w c of
                           Inl e \<Rightarrow> ([c], Inl e)
                         | Inr order \<Rightarrow> ([c], Inr \<lparr>status = 200, json = order\<rparr>)))))"

text \<open>
  The \<^verbatim>\<open>catch\<close> block logs \<^verbatim>\<open>err?.response?.data || err.message || err\<close> first: when
  \<^verbatim>\<open>err\<close> is \<^verbatim>\<open>undefined\<close> or \<^verbatim>\<open>null\<close> the middle operand throws inside the handler
  that was to answer, and no response is sent.
\<close>

definition createRazorpayOrder :: handler where
  "createRazorpayOrder env w req =
     (case createRazorpayOrder_try env w req of
        (cs, Inr r) \<Rightarrow> (cs, Responded r)
      | (cs, Inl err) \<Rightarrow>
          (cs, if nullish err then Unhandled (read_error err ''message'')
               else Responded \<lparr>status = 500,
                      json = JObj [(''error'', JStr ''Razorpay order creation failed''),
                                   (''details'', js_or (opt_prop err ''message'') err)]\<rparr>))"

subsection \<open>\<^verbatim>\<open>verifyRazorpayPayment\<close>\<close>

definition verifyRazorpayPayment_try :: "process_env \<Rightarrow> world \<Rightarrow> request \<Rightarrow> attempt" where
  "verifyRazorpayPayment_try env w req =
     (if nullish (body req) then ([], Inl (destructure_error (body req) ''razor''))
      else
        let razor = own_prop (body req) ''razor'';
            booking = own_prop (body req) ''booking''
        in if \<not> truthy razor \<or> \<not> truthy (own_prop razor ''razorpay_payment_id'')
              \<or> \<not> truthy (own_prop razor ''razorpay_order_id'')
              \<or> \<not> truthy (own_prop razor ''razorpay_signature'')
           then ([], Inr \<lparr>status = 400,
                   json = JObj [(''success'', JBool False), (''error'', JStr ''Missing razor payload'')]\<rparr>)
           else
             (case to_string (own_prop razor ''razorpay_order_id'') of
                Inl e \<Rightarrow> ([], Inl e)
              | Inr order_id \<Rightarrow>
                  (case to_string (own_prop razor ''razorpay_payment_id'') of
                     Inl e \<Rightarrow> ([], Inl e)
                   | Inr payment_id \<Rightarrow>
                       let generated_signature =
                             createHmac_sha256_hex (RAZORPAY_KEY_SECRET env) (order_id @ ''|'' @ payment_id)
                       in if JStr generated_signature = own_prop razor ''razorpay_signature''
                          then ([], Inr \<lparr>status = 200, json = JObj [(''success'', JBool True)]\<rparr>)
                          else ([], Inr \<lparr>status = 400,
                                  json = JObj [(''success'', JBool False),
                                               (''error'', JStr ''signature_mismatch'')]\<rparr>))))"

definition verifyRazorpayPayment :: handler where
  "verifyRazorpayPayment env w req =
     (case verifyRazorpayPayment_try env w req of
        (cs, Inr r) \<Rightarrow> (cs, Responded r)
      | (cs, Inl err) \<Rightarrow>
          (cs, Responded \<lparr>status = 500,
                 json = JObj [(''success'', JBool False), (''error'', JStr ''verify failed''),
                              (''details'', js_or (opt_prop err ''message'') err)]\<rparr>))"

subsection \<open>\<^verbatim>\<open>createStripeSession\<close>\<close>

text \<open>\<^verbatim>\<open>currency.toLowerCase()\<close>: only a string has the method.\<close>

definition lower_currency :: "world \<Rightarrow> jsval \<Rightarrow> jsval + string" where
  "lower_currency w currency =
     (case currency of
        JStr s \<Rightarrow> Inr (toLowerCase w s)
      | JUndefined \<Rightarrow> Inl (read_error currency ''toLowerCase'')
      | JNull \<Rightarrow> Inl (read_error currency ''toLowerCase'')
      | _ \<Rightarrow> Inl (js_error ''currency.toLowerCase is not a function''))"

fun Array_isArray :: "jsval \<Rightarrow> bool" where
  "Array_isArray (JArr xs) = True"
| "Array_isArray _ = False"

fun elements :: "jsval \<Rightarrow> jsval list" where
  "elements (JArr xs) = xs"
| "elements _ = []"

text \<open>\<^verbatim>\<open>booking.services.map(s => s.name)\<close>\<close>

fun service_names :: "jsval list \<Rightarrow> jsval + jsval list" where
  "service_names [] = Inr []"
| "service_names (s # ss) =
     (case get_prop s ''name'' of
        Inl e \<Rightarrow> Inl e
      | Inr n \<Rightarrow> (case service_names ss of Inl e \<Rightarrow> Inl e | Inr ns \<Rightarrow> Inr (n # ns)))"

text \<open>
  The product name of the line item:
  \<^verbatim>\<open>`Booking: ${Array.isArray(booking.services) ? booking.services.map(s => s.name).join(', ') : (booking.name || 'Customer')}`\<close>
\<close>

definition product_name :: "jsval \<Rightarrow> jsval + string" where
  "product_name booking =
     (case get_prop booking ''services'' of
        Inl e \<Rightarrow> Inl e
      | Inr services \<Rightarrow>
          if Array_isArray services then
            (case service_names (elements services) of
               Inl e \<Rightarrow> Inl e
             | Inr ns \<Rightarrow>
                 (case elems_to_strings ns of
                    Inl e \<Rightarrow> Inl e
                  | Inr ss \<Rightarrow> Inr (''Booking: '' @ intercalate '', '' ss)))
          else
            (case to_string (js_or (own_prop booking ''name'') (JStr ''Customer'')) of
               Inl e \<Rightarrow> Inl e
             | Inr s \<Rightarrow> Inr (''Booking: '' @ s)))"

text \<open>\<^verbatim>\<open>req.headers.origin || 'http://localhost:3000'\<close>\<close>

definition origin_or_default :: "request \<Rightarrow> string" where
  "origin_or_default req =
     (case origin req of None \<Rightarrow> ''http://localhost:3000''
      | Some s \<Rightarrow> if s = [] then ''http://localhost:3000'' else s)"

text \<open>
  The argument of \<^verbatim>\<open>stripe.checkout.sessions.create\<close>: one line item, the two
  redirect URLs, and the booking serialised as metadata
  (\<^verbatim>\<open>JSON.stringify(booking || {})\<close>).
\<close>

definition stripe_session_params ::
  "string \<Rightarrow> string \<Rightarrow> jsnum \<Rightarrow> string \<Rightarrow> string \<Rightarrow> jsval \<Rightarrow> jsval" where
  "stripe_session_params cur name unitAmount successUrl cancelUrl booking =
     JObj [(''payment_method_types'', JArr [JStr ''card'']),
           (''mode'', JStr ''payment''),
           (''line_items'', JArr [JObj [
              (''price_data'', JObj [
                 (''currency'', JStr cur),
                 (''product_data'', JObj [(''name'', JStr name)]),
                 (''unit_amount'', JNum unitAmount)]),
              (''quantity'', JNum (Fin 1))]]),
           (''success_url'', JStr successUrl),
           (''cancel_url'', JStr cancelUrl),
           (''metadata'', JObj [(''booking'',
              (case json_stringify (js_or booking (JObj [])) of
                 None \<Rightarrow> JUndefined | Some s \<Rightarrow> JStr s))])]"

definition createStripeSession_try :: "process_env \<Rightarrow> world \<Rightarrow> request \<Rightarrow> attempt" where
  "createStripeSession_try env w req =
     (if nullish (body req) then ([], Inl (destructure_error (body req) ''booking''))
      else
        let booking = default_to (own_prop (body req) ''booking'') (JObj []);
            amount = own_prop (body req) ''amount'';
            currency = default_to (own_prop (body req) ''currency'') (JStr ''INR'')
        in (case invalid_amount amount of
              Inl e \<Rightarrow> ([], Inl e)
            | Inr True \<Rightarrow>
                ([], Inr \<lparr>status = 400,
                   json = JObj [(''error'', JStr ''Invalid amount. Send amount in rupees (number).'')]\<rparr>)
            | Inr False \<Rightarrow>
                (case to_number amount of
                   Inl e \<Rightarrow> ([], Inl e)
                 | Inr n \<Rightarrow>
                     let unitAmount = Math_round (js_mul n (Fin 100));
                         successUrl = origin_or_default req @ ''/success.html'';
                         cancelUrl = origin_or_default req @ ''/failure.html''
                     in (case lower_currency w currency of
                           Inl e \<Rightarrow> ([], Inl e)
                         | Inr cur \<Rightarrow>
                             (case product_name booking of
                                Inl e \<Rightarrow> ([], Inl e)
                              | Inr name \<Rightarrow>
                                  let c = Stripe_checkout_sessions_create (STRIPE_SECRET env)
                                        (stripe_session_params cur name unitAmount successUrl cancelUrl booking)
                                  in (case provider w c of
                                        Inl e \<Rightarrow> ([c], Inl e)
                                      | Inr session \<Rightarrow>
                                          (case get_prop session ''id'' of
                                             Inl e \<Rightarrow> ([c], Inl e)
                                           | Inr i \<Rightarrow>
                                               ([c], Inr \<lparr>status = 200, json = JObj [(''id'', i)]\<rparr>))))))))"

definition createStripeSession :: handler where
  "createStripeSession env w req =
     (case createStripeSession_try env w req of
        (cs, Inr r) \<Rightarrow> (cs, Responded r)
      | (cs, Inl err) \<Rightarrow>
          (cs, Responded \<lparr>status = 500,
                 json = JObj [(''error'', JStr ''Stripe session creation failed''),
                              (''details'', js_or (opt_prop err ''message'') err)]\<rparr>))"

subsection \<open>\<^verbatim>\<open>createPaypalOrder\<close> and \<^verbatim>\<open>capturePaypalPayment\<close>\<close>

text \<open>The headers of the two calls made with the token: \<^verbatim>\<open>`Bearer ${accessToken}`\<close>.\<close>

definition bearer_config :: "string \<Rightarrow> jsval" where
  "bearer_config tok = JObj [(''headers'', JObj [(''Authorization'', JStr (''Bearer '' @ tok)),
                               (''Content-Type'', JStr ''application/json'')])]"

text \<open>\<^verbatim>\<open>err?.response?.data || err?.message || err\<close>\<close>

definition paypal_details :: "jsval \<Rightarrow> jsval" where
  "paypal_details err =
     js_or (opt_prop (opt_prop err ''response'') ''data'') (js_or (opt_prop err ''message'') err)"

text \<open>
  The order sent to \<^verbatim>\<open>/v2/checkout/orders\<close>:
  \<^verbatim>\<open>{ intent: 'CAPTURE', purchase_units: [{ amount: { currency_code: currency, value: String(amount) } }] }\<close>
\<close>

definition paypal_order_body :: "jsval \<Rightarrow> string \<Rightarrow> jsval" where
  "paypal_order_body currency amount_str =
     JObj [(''intent'', JStr ''CAPTURE''),
           (''purchase_units'', JArr [JObj [
              (''amount'', JObj [(''currency_code'', currency), (''value'', JStr amount_str)])]])]"

definition createPaypalOrder_try :: "process_env \<Rightarrow> world \<Rightarrow> request \<Rightarrow> attempt" where
  "createPaypalOrder_try env w req =
     (if nullish (body req) then ([], Inl (destructure_error (body req) ''amount''))
      else
        let amount = own_prop (body req) ''amount'';
            currency = default_to (own_prop (body req) ''currency'') (JStr ''INR'')
        in (case invalid_amount amount of
              Inl e \<Rightarrow> ([], Inl e)
            | Inr True \<Rightarrow> ([], Inr \<lparr>status = 400, json = JObj [(''error'', JStr ''Invalid amount'')]\<rparr>)
            | Inr False \<Rightarrow>
                (case getPaypalToken env w of
                   (cs, Inl e) \<Rightarrow> (cs, Inl e)
                 | (cs, Inr accessToken) \<Rightarrow>
                     (case to_string amount of
                        Inl e \<Rightarrow> (cs, Inl e)
                      | Inr amount_str \<Rightarrow>
                          (case to_string accessToken of
                             Inl e \<Rightarrow> (cs, Inl e)
                           | Inr tok \<Rightarrow>
                               let c = Axios_post (PAYPAL_API env @ ''/v2/checkout/orders'')
                                     (paypal_order_body currency amount_str) (bearer_config tok)
                               in (case provider w c of
                                     Inl e \<Rightarrow> (cs @ [c], Inl e)
                                   | Inr orderResp \<Rightarrow>
                                       (case get_prop orderResp ''data'' of
                                          Inl e \<Rightarrow> (cs @ [c], Inl e)
                                        | Inr d \<Rightarrow>
                                            (case get_prop d ''id'' of
                                               Inl e \<Rightarrow> (cs @ [c], Inl e)
                                             | Inr i \<Rightarrow>
                                                 (cs @ [c], Inr \<lparr>status = 200,
                                                    json = JObj [(''orderId'', i), (''order'', d)]\<rparr>)))))))))"

definition createPaypalOrder :: handler where
  "createPaypalOrder env w req =
     (case createPaypalOrder_try env w req of
        (cs, Inr r) \<Rightarrow> (cs, Responded r)
      | (cs, Inl err) \<Rightarrow>
          (cs, Responded \<lparr>status = 500,
                 json = JObj [(''error'', JStr ''PayPal create order failed''),
                              (''details'', paypal_details err)]\<rparr>))"

definition capturePaypalPayment_try :: "process_env \<Rightarrow> world \<Rightarrow> request \<Rightarrow> attempt" where
  "capturePaypalPayment_try env w req =
     (if nullish (body req) then ([], Inl (destructure_error (body req) ''orderId''))
      else
        let orderId = own_prop (body req) ''orderId''
        in if \<not> truthy orderId
           then ([], Inr \<lparr>status = 400,
                   json = JObj [(''success'', JBool False), (''error'', JStr ''Missing orderId'')]\<rparr>)
           else
             (case getPaypalToken env w of
                (cs, Inl e) \<Rightarrow> (cs, Inl e)
              | (cs, Inr accessToken) \<Rightarrow>
                  (case to_string orderId of
                     Inl e \<Rightarrow> (cs, Inl e)
                   | Inr oid \<Rightarrow>
                       (case to_string accessToken of
                          Inl e \<Rightarrow> (cs, Inl e)
                        | Inr tok \<Rightarrow>
                            let c = Axios_post (PAYPAL_API env @ ''/v2/checkout/orders/'' @ oid @ ''/capture'')
                                      (JObj []) (bearer_config tok)
                            in (case provider w c of
                                  Inl e \<Rightarrow> (cs @ [c], Inl e)
                                | Inr captureResp \<Rightarrow>
                                    (case get_prop captureResp ''data'' of
                                       Inl e \<Rightarrow> (cs @ [c], Inl e)
                                     | Inr d \<Rightarrow>
                                         (cs @ [c], Inr \<lparr>status = 200,
                                            json = JObj [(''success'', JBool True), (''capture'', d)]\<rparr>)))))))"

definition capturePaypalPayment :: handler where
  "capturePaypalPayment env w req =
     (case capturePaypalPayment_try env w req of
        (cs, Inr r) \<Rightarrow> (cs, Responded r)
      | (cs, Inl err) \<Rightarrow>
          (cs, Responded \<lparr>status = 500,
                 json = JObj [(''success'', JBool False), (''error'', JStr ''PayPal capture failed''),
                              (''details'', paypal_details err)]\<rparr>))"

section \<open>\<^verbatim>\<open>server.js\<close>\<close>

text \<open>
  \<^verbatim>\<open>server.js\<close> requires \<^verbatim>\<open>./payments\<close> before it registers a route, and
  \<^verbatim>\<open>payments.js\<close> builds its two clients when it is loaded:
  \<^verbatim>\<open>new Razorpay({ key_id: RAZORPAY_KEY_ID, key_secret: RAZORPAY_KEY_SECRET })\<close> and
  \<^verbatim>\<open>Stripe(STRIPE_SECRET)\<close>. A constructor that throws there is caught by nothing: the
  process exits and never listens. The constructor of the Razorpay SDK throws when
  \<open>key_id\<close> is empty. The releases of the two SDKs differ on an empty \<open>key_secret\<close>
  and on an empty Stripe key, and the source does not fix the releases: these two
  checks are parameters.
\<close>

record sdk =
  razorpay_secret_mandatory :: bool
  stripe_key_mandatory :: bool

definition payments_loads :: "sdk \<Rightarrow> process_env \<Rightarrow> bool" where
  "payments_loads k env =
     (RAZORPAY_KEY_ID env \<noteq> []
      \<and> (if razorpay_secret_mandatory k then RAZORPAY_KEY_SECRET env \<noteq> [] else True)
      \<and> (if stripe_key_mandatory k then STRIPE_SECRET env \<noteq> [] else True))"

definition health :: handler where
  "health env w req = ([], Responded \<lparr>status = 200, json = JObj [(''ok'', JBool True)]\<rparr>)"

text \<open>The catch-all route sends \<^verbatim>\<open>index.html\<close>; the path is relative to the directory of \<^verbatim>\<open>server.js\<close>.\<close>

definition index_html :: handler where
  "index_html env w req = ([], SentFile ''../public/index.html'')"

text \<open>
  The routes in the order \<^verbatim>\<open>server.js\<close> registers them; \<open>None\<close> is the path
  \<^verbatim>\<open>*\<close>, which every path matches.
\<close>

definition routes :: "(string \<times> string option \<times> handler) list" where
  "routes = [
     (''POST'', Some ''/create-razorpay-order'', createRazorpayOrder),
     (''POST'', Some ''/verify-razorpay-payment'', verifyRazorpayPayment),
     (''POST'', Some ''/create-stripe-session'', createStripeSession),
     (''POST'', Some ''/create-paypal-order'', createPaypalOrder),
     (''POST'', Some ''/capture-paypal-payment'', capturePaypalPayment),
     (''GET'', Some ''/health'', health),
     (''GET'', None, index_html)]"

text \<open>
  How Express 4 matches with its default settings: a route path matches the path of
  the request (the URL without its query) whatever the case of its letters and with
  or without one trailing slash; a route registered for \<^verbatim>\<open>GET\<close> also serves
  \<^verbatim>\<open>HEAD\<close>.
\<close>

definition path_matches :: "string \<Rightarrow> string \<Rightarrow> bool" where
  "path_matches route_path path =
     (ascii_lower path = ascii_lower route_path \<or> ascii_lower path = ascii_lower route_path @ ''/'')"

definition method_matches :: "string \<Rightarrow> string \<Rightarrow> bool" where
  "method_matches route_method method =
     (method = route_method \<or> (method = ''HEAD'' \<and> route_method = ''GET''))"

definition route_matches :: "string \<Rightarrow> string \<Rightarrow> string \<times> string option \<times> handler \<Rightarrow> bool" where
  "route_matches method path r =
     (case r of (m, p, h) \<Rightarrow>
        method_matches m method \<and> (case p of None \<Rightarrow> True | Some rp \<Rightarrow> path_matches rp path))"

text \<open>
  A request to the application: nothing answers when the modules did not load;
  otherwise the first matching route handles it, in the order of registration. The
  middleware registered before the routes (CORS, the body parsers, the static files
  of \<^verbatim>\<open>../public\<close>) belongs to Express and is not modelled.
\<close>

datatype served = NotStarted | NoRoute | Handled "call list \<times> outcome"

definition app :: "sdk \<Rightarrow> process_env \<Rightarrow> world \<Rightarrow> string \<Rightarrow> string \<Rightarrow> request \<Rightarrow> served" where
  "app k env w method path req =
     (if \<not> payments_loads k env then NotStarted
      else (case List.find (route_matches method path) routes of
              None \<Rightarrow> NoRoute
            | Some (m, p, h) \<Rightarrow> Handled (h env w req)))"

section \<open>The specification's conversion to minor units\<close>


section \<open>Reading a trace of calls\<close>

text \<open>
  The product names of the line items sent to the card gateway: of each
  \<^verbatim>\<open>stripe.checkout.sessions.create\<close> in a trace, the field
  \<^verbatim>\<open>line_items[0].price_data.product_data.name\<close> of its argument.
\<close>

fun product_names_sent :: "call list \<Rightarrow> jsval list" where
  "product_names_sent [] = []"
| "product_names_sent (Stripe_checkout_sessions_create k p # cs) =
     (case own_prop p ''line_items'' of
        JArr (item # rest) \<Rightarrow>
          own_prop (own_prop (own_prop item ''price_data'') ''product_data'') ''name''
            # product_names_sent cs
      | _ \<Rightarrow> product_names_sent cs)"
| "product_names_sent (c # cs) = product_names_sent cs"




section \<open>Sample configurations, providers and requests\<close>

definition env_none :: process_env where
  "env_none k = None"

text \<open>The keys of the regional and of the card gateway, and none for the wallet gateway.\<close>

definition env_no_paypal :: process_env where
  "env_no_paypal = map_of [(''RAZORPAY_KEY_ID'', ''rzp_test_1''), (''RAZORPAY_KEY_SECRET'', ''s3cret''),
     (''STRIPE_SECRET_KEY'', ''sk_test_1'')]"

text \<open>SDK releases that check every key, and releases that check the Razorpay key id only.\<close>

definition sdk_strict :: sdk where
  "sdk_strict = \<lparr>razorpay_secret_mandatory = True, stripe_key_mandatory = True\<rparr>"

definition sdk_lenient :: sdk where
  "sdk_lenient = \<lparr>razorpay_secret_mandatory = False, stripe_key_mandatory = False\<rparr>"

definition env_test :: process_env where
  "env_test = map_of [(''RAZORPAY_KEY_ID'', ''rzp_test_1''), (''RAZORPAY_KEY_SECRET'', ''s3cret''),
     (''STRIPE_SECRET_KEY'', ''sk_test_1''), (''PAYPAL_CLIENT_ID'', ''client''),
     (''PAYPAL_CLIENT_SECRET'', ''secret'')]"

text \<open>
  A network that is down, and providers that answer. The strings the samples put in
  lower case are ASCII.
\<close>

definition world_down :: world where
  "world_down = \<lparr>provider = (\<lambda>c. Inl (js_error ''connect ECONNREFUSED'')), now = 1700000000000,
                  toLowerCase = ascii_lower\<rparr>"

fun stub_provider :: "call \<Rightarrow> jsval + jsval" where
  "stub_provider (Razorpay_orders_create k s opts) =
     Inr (JObj [(''id'', JStr ''order_1''), (''amount'', own_prop opts ''amount'')])"
| "stub_provider (Stripe_checkout_sessions_create k p) = Inr (JObj [(''id'', JStr ''cs_1'')])"
| "stub_provider (Axios_post url d cfg) =
     Inr (JObj [(''data'', JObj [(''access_token'', JStr ''A21AAF''), (''id'', JStr ''5O190127TN'')])])"

definition world_stub :: world where
  "world_stub = \<lparr>provider = stub_provider, now = 1700000000000, toLowerCase = ascii_lower\<rparr>"

definition amount_request :: "jsval \<Rightarrow> request" where
  "amount_request a = \<lparr>body = JObj [(''amount'', a)], origin = None\<rparr>"

definition booking_request :: "jsval \<Rightarrow> request" where
  "booking_request b = \<lparr>body = JObj [(''amount'', JNum (Fin 500)), (''booking'', b)],
                          origin = Some ''https://npbeauty.example''\<rparr>"

definition razor_request :: "jsval \<Rightarrow> jsval \<Rightarrow> request" where
  "razor_request razor booking =
     \<lparr>body = JObj [(''razor'', razor), (''booking'', booking)], origin = None\<rparr>"

definition razor_payload :: "string \<Rightarrow> string \<Rightarrow> jsval \<Rightarrow> jsval" where
  "razor_payload payment_id order_id signature =
     JObj [(''razorpay_payment_id'', JStr payment_id), (''razorpay_order_id'', JStr order_id),
           (''razorpay_signature'', signature)]"

definition empty_request :: request where
  "empty_request = \<lparr>body = JObj [], origin = None\<rparr>"

section \<open>Properties\<close>

subsection \<open>Auxiliary facts\<close>

lemma length_state_bytes: "length (state_bytes s) = 32"
  by (cases s rule: prod_cases7) (auto simp: word_bytes_def split_paired_all)

lemma length_sha256: "length (sha256 m) = 32"
  by (simp add: sha256_def length_state_bytes)

lemma length_hex: "length (hex bs) = 2 * length bs"
  by (induction bs) (simp_all add: hex_def)

text \<open>A hex digest of HMAC-SHA256 has 64 characters, whatever the key and the message.\<close>

lemma length_createHmac: "length (createHmac_sha256_hex key msg) = 64"
  by (simp add: createHmac_sha256_hex_def length_hex hmac_sha256_def Let_def length_sha256)

lemma createHmac_nonempty: "createHmac_sha256_hex key msg \<noteq> []"
  using length_createHmac [of key msg] by auto

lemma own_prop_defined_truthy: "own_prop v k \<noteq> JUndefined \<Longrightarrow> truthy v"
  by (cases v) simp_all

lemma truthy_field_truthy: "truthy (own_prop v k) \<Longrightarrow> truthy v"
  by (cases v) simp_all

lemma invalid_amount_rejected:
  assumes "amount = JUndefined \<or> to_number amount = Inr NaN
           \<or> (\<exists>n. to_number amount = Inr n \<and> js_le n (Fin 0))"
  shows "invalid_amount amount = Inr True"
  using assms by (auto simp add: invalid_amount_def)






lemma sample_keys:
  "RAZORPAY_KEY_ID env_test = ''rzp_test_1''" "RAZORPAY_KEY_SECRET env_test = ''s3cret''"
  "STRIPE_SECRET env_test = ''sk_test_1''" "PAYPAL_CLIENT env_test = ''client''"
  "PAYPAL_SECRET env_test = ''secret''" "PAYPAL_API env_test = ''https://api-m.sandbox.paypal.com''"
  "RAZORPAY_KEY_ID env_no_paypal = ''rzp_test_1''" "RAZORPAY_KEY_SECRET env_no_paypal = ''s3cret''"
  "STRIPE_SECRET env_no_paypal = ''sk_test_1''"
  "PAYPAL_CLIENT env_no_paypal = []" "PAYPAL_SECRET env_no_paypal = []"
  "RAZORPAY_KEY_ID env_none = []"
  by (simp_all add: RAZORPAY_KEY_ID_def RAZORPAY_KEY_SECRET_def STRIPE_SECRET_def PAYPAL_CLIENT_def
      PAYPAL_SECRET_def PAYPAL_API_def env_or_empty_def env_test_def env_no_paypal_def env_none_def)

text \<open>With the keys of the regional and of the card gateway the modules load, whatever the SDKs check.\<close>

lemma sample_loads: "payments_loads k env_no_paypal" "payments_loads k env_test"
  by (simp_all add: payments_loads_def sample_keys)

subsection \<open>Numbers that \<open>fl\<close> leaves as they are\<close>













text \<open>
  The model computes the HMAC the provider computes: the signature of order
  \<^verbatim>\<open>order_1\<close> and payment \<^verbatim>\<open>pay_1\<close> under the key \<^verbatim>\<open>s3cret\<close>.
\<close>

lemma sample_signature:
  "createHmac_sha256_hex ''s3cret'' ''order_1|pay_1'' =
     ''44422d618d76e6e81c5f002f4d5108385750b52eb8db4e9c7a4231ddfac02840''"
  by code_simp

subsection \<open>The coercions on known values\<close>

text \<open>What Node.js prints for \<^verbatim>\<open>Number(s)\<close>, \<^verbatim>\<open>Number(v)\<close> and \<^verbatim>\<open>String(x)\<close>.\<close>

lemma string_to_number_samples:
  "string_to_number [] = Fin 0"
  "string_to_number '' 12 '' = Fin 12"
  "string_to_number ''abc'' = NaN"
  "string_to_number ''12px'' = NaN"
  "string_to_number ''0x1F'' = Fin 31"
  "string_to_number ''1e3'' = Fin 1000"
  "string_to_number ''-.5'' = Fin (- 1 / 2)"
  "string_to_number ''-Infinity'' = NegInf"
  by code_simp+

lemma to_number_samples:
  "to_number (JArr []) = Inr (Fin 0)"
  "to_number (JArr [JNum (Fin 5)]) = Inr (Fin 5)"
  "to_number (JArr [JNum (Fin 1), JNum (Fin 2)]) = Inr NaN"
  "to_number (JObj []) = Inr NaN"
  by code_simp+

text \<open>The double nearest to 0.1, read and printed.\<close>

lemma one_tenth:
  "string_to_number ''0.1'' = Fin (3602879701896397 / 36028797018963968)"
  "num_to_string (Fin (3602879701896397 / 36028797018963968)) = ''0.1''"
  by code_simp+

lemma num_to_string_samples:
  "num_to_string (Fin (- 201 / 2)) = ''-100.5''"
  "num_to_string (Fin 1700000000000) = ''1700000000000''"
  by code_simp+

text \<open>
  The product is the product of doubles: \<^verbatim>\<open>Number("1.005") * 100\<close> is
  \<^verbatim>\<open>100.49999999999999\<close>, which \<^verbatim>\<open>Math.round\<close> takes to 100.
\<close>

lemma product_of_doubles:
  "to_number (JStr ''1.005'') = Inr (Fin (1131529406376837 / 1125899906842624))"
  "js_mul (Fin (1131529406376837 / 1125899906842624)) (Fin 100) = Fin (7072058789855231 / 70368744177664)"
  "Math_round (Fin (7072058789855231 / 70368744177664)) = Fin 100"
  by code_simp+

subsection \<open>Signature verification\<close>

text \<open>
  Claim C1. For every non-empty order id and payment id (strings) and every secret,
  a verification request whose signature is the hex-encoded HMAC-SHA256 of
  \<^verbatim>\<open>orderId + "|" + paymentId\<close> under the stored secret is answered with success:
  HTTP 200 and \<^verbatim>\<open>{success: true}\<close>, and no outbound call. The body is what the body
  parsers leave in \<^verbatim>\<open>req.body\<close>, a value that is neither \<^verbatim>\<open>undefined\<close> nor
  \<^verbatim>\<open>null\<close>. The secret may even be empty.
\<close>

theorem verify_accepts_provider_signature:
  assumes "\<not> nullish (body req)"
    and "own_prop (body req) ''razor'' = razor"
    and "own_prop razor ''razorpay_order_id'' = JStr orderId"
    and "own_prop razor ''razorpay_payment_id'' = JStr paymentId"
    and "own_prop razor ''razorpay_signature'' =
           JStr (createHmac_sha256_hex (RAZORPAY_KEY_SECRET env) (orderId @ ''|'' @ paymentId))"
    and "orderId \<noteq> []" and "paymentId \<noteq> []"
  shows "verifyRazorpayPayment env w req =
    ([], Responded \<lparr>status = 200, json = JObj [(''success'', JBool True)]\<rparr>)"
proof -
  have "truthy razor"
    using assms(3) own_prop_defined_truthy [of razor "''razorpay_order_id''"] by simp
  then show ?thesis
    using assms
    by (simp add: verifyRazorpayPayment_def verifyRazorpayPayment_try_def createHmac_nonempty)
qed

theorem verify_accepts_provider_signature_witness:
  "verifyRazorpayPayment env_test world_down
     (razor_request
        (razor_payload ''pay_1'' ''order_1''
           (JStr ''44422d618d76e6e81c5f002f4d5108385750b52eb8db4e9c7a4231ddfac02840''))
        (JObj [(''name'', JStr ''Asha'')])) =
   ([], Responded \<lparr>status = 200, json = JObj [(''success'', JBool True)]\<rparr>)"
proof -
  let ?razor = "razor_payload ''pay_1'' ''order_1''
     (JStr ''44422d618d76e6e81c5f002f4d5108385750b52eb8db4e9c7a4231ddfac02840'')"
  let ?req = "razor_request ?razor (JObj [(''name'', JStr ''Asha'')])"
  have h1: "\<not> nullish (body ?req)"
    by (simp add: razor_request_def nullish_def)
  have h2: "own_prop (body ?req) ''razor'' = ?razor"
    by (simp add: razor_request_def)
  have h3: "own_prop ?razor ''razorpay_order_id'' = JStr ''order_1''"
    and h4: "own_prop ?razor ''razorpay_payment_id'' = JStr ''pay_1''"
    by (simp_all add: razor_payload_def)
  have h5: "own_prop ?razor ''razorpay_signature'' =
      JStr (createHmac_sha256_hex (RAZORPAY_KEY_SECRET env_test) (''order_1'' @ ''|'' @ ''pay_1''))"
    using sample_signature by (simp add: razor_payload_def sample_keys)
  show ?thesis
    using verify_accepts_provider_signature [OF h1 h2 h3 h4 h5] by simp
qed

text \<open>
  Claim C3. When the three fields are present (truthy), the message can be formed
  (the two ids convert to strings, as every string, number and boolean does) and the
  supplied signature is anything but the computed hex digest, the answer is the
  mismatch result: HTTP 400 with \<^verbatim>\<open>{success: false, error: 'signature_mismatch'}\<close>;
  nothing is thrown and no 500 is sent. The comparison is \<^verbatim>\<open>===\<close> on the
  lower-case hex digest, so a signature that differs in the case of one letter only
  is a mismatch too.
\<close>

theorem verify_rejects_altered_signature:
  assumes "\<not> nullish (body req)"
    and "own_prop (body req) ''razor'' = razor"
    and "truthy (own_prop razor ''razorpay_payment_id'')"
    and "truthy (own_prop razor ''razorpay_order_id'')"
    and "truthy (own_prop razor ''razorpay_signature'')"
    and "to_string (own_prop razor ''razorpay_order_id'') = Inr orderId"
    and "to_string (own_prop razor ''razorpay_payment_id'') = Inr paymentId"
    and "own_prop razor ''razorpay_signature'' \<noteq>
           JStr (createHmac_sha256_hex (RAZORPAY_KEY_SECRET env) (orderId @ ''|'' @ paymentId))"
  shows "verifyRazorpayPayment env w req =
    ([], Responded \<lparr>status = 400,
           json = JObj [(''success'', JBool False), (''error'', JStr ''signature_mismatch'')]\<rparr>)"
proof -
  have "truthy razor"
    using assms(3) by (rule truthy_field_truthy)
  with assms show ?thesis
    by (auto simp add: verifyRazorpayPayment_def verifyRazorpayPayment_try_def)
qed

text \<open>The signature of the sample above with its first letter in upper case.\<close>

theorem verify_rejects_altered_signature_witness:
  "verifyRazorpayPayment env_test world_down
     (razor_request
        (razor_payload ''pay_1'' ''order_1''
           (JStr ''44422D618d76e6e81c5f002f4d5108385750b52eb8db4e9c7a4231ddfac02840''))
        (JObj [(''name'', JStr ''Asha'')])) =
   ([], Responded \<lparr>status = 400,
          json = JObj [(''success'', JBool False), (''error'', JStr ''signature_mismatch'')]\<rparr>)"
proof -
  let ?razor = "razor_payload ''pay_1'' ''order_1''
     (JStr ''44422D618d76e6e81c5f002f4d5108385750b52eb8db4e9c7a4231ddfac02840'')"
  let ?req = "razor_request ?razor (JObj [(''name'', JStr ''Asha'')])"
  have h1: "\<not> nullish (body ?req)"
    by (simp add: razor_request_def nullish_def)
  have h2: "own_prop (body ?req) ''razor'' = ?razor"
    by (simp add: razor_request_def)
  have h3: "truthy (own_prop ?razor ''razorpay_payment_id'')"
    and h4: "truthy (own_prop ?razor ''razorpay_order_id'')"
    and h5: "truthy (own_prop ?razor ''razorpay_signature'')"
    and h6: "to_string (own_prop ?razor ''razorpay_order_id'') = Inr ''order_1''"
    and h7: "to_string (own_prop ?razor ''razorpay_payment_id'') = Inr ''pay_1''"
    by (simp_all add: razor_payload_def)
  have h8: "own_prop ?razor ''razorpay_signature'' \<noteq>
      JStr (createHmac_sha256_hex (RAZORPAY_KEY_SECRET env_test) (''order_1'' @ ''|'' @ ''pay_1''))"
    using sample_signature by (simp add: razor_payload_def sample_keys)
  show ?thesis
    using verify_rejects_altered_signature [OF h1 h2 h3 h4 h5 h6 h7 h8] by simp
qed

text \<open>
  Claim C4. A verification request in which one of \<^verbatim>\<open>razorpay_payment_id\<close>,
  \<^verbatim>\<open>razorpay_order_id\<close>, \<^verbatim>\<open>razorpay_signature\<close> is missing (or \<^verbatim>\<open>razor\<close> itself,
  whose fields are then all missing) is answered with HTTP 400 and
  \<^verbatim>\<open>{success: false, error: 'Missing razor payload'}\<close>. The answer tells the two
  failures apart: it is not the mismatch answer, whose \<^verbatim>\<open>error\<close> is
  \<^verbatim>\<open>'signature_mismatch'\<close>, and a request with the three fields present never gets it.
\<close>

theorem verify_missing_fields:
  assumes "\<not> nullish (body req)"
    and "own_prop (body req) ''razor'' = razor"
    and "missing = (\<not> truthy (own_prop razor ''razorpay_payment_id'')
                    \<or> \<not> truthy (own_prop razor ''razorpay_order_id'')
                    \<or> \<not> truthy (own_prop razor ''razorpay_signature''))"
  shows "(missing \<longrightarrow>
            verifyRazorpayPayment env w req =
              ([], Responded \<lparr>status = 400,
                     json = JObj [(''success'', JBool False), (''error'', JStr ''Missing razor payload'')]\<rparr>)
          \<and> verifyRazorpayPayment env w req \<noteq>
              ([], Responded \<lparr>status = 400,
                     json = JObj [(''success'', JBool False), (''error'', JStr ''signature_mismatch'')]\<rparr>))
       \<and> (\<not> missing \<longrightarrow>
            verifyRazorpayPayment env w req \<noteq>
              ([], Responded \<lparr>status = 400,
                     json = JObj [(''success'', JBool False), (''error'', JStr ''Missing razor payload'')]\<rparr>))"
proof (cases missing)
  case True
  then show ?thesis
    using assms by (auto simp add: verifyRazorpayPayment_def verifyRazorpayPayment_try_def)
next
  case False
  then have t: "truthy (own_prop razor ''razorpay_payment_id'')"
    "truthy (own_prop razor ''razorpay_order_id'')" "truthy (own_prop razor ''razorpay_signature'')"
    using assms(3) by auto
  then have "truthy razor"
    using truthy_field_truthy by blast
  with False t assms(1,2) show ?thesis
    by (auto simp add: verifyRazorpayPayment_def verifyRazorpayPayment_try_def Let_def
        split: sum.splits)
qed

theorem verify_missing_fields_witness:
  "verifyRazorpayPayment env_test world_down
     (razor_request (JObj [(''razorpay_payment_id'', JStr ''pay_1''),
                           (''razorpay_order_id'', JStr ''order_1'')]) JNull) =
   ([], Responded \<lparr>status = 400,
          json = JObj [(''success'', JBool False), (''error'', JStr ''Missing razor payload'')]\<rparr>)"
proof -
  let ?razor = "JObj [(''razorpay_payment_id'', JStr ''pay_1''), (''razorpay_order_id'', JStr ''order_1'')]"
  let ?req = "razor_request ?razor JNull"
  have h1: "\<not> nullish (body ?req)"
    by (simp add: razor_request_def nullish_def)
  have h2: "own_prop (body ?req) ''razor'' = ?razor"
    by (simp add: razor_request_def)
  have h3: "True = (\<not> truthy (own_prop ?razor ''razorpay_payment_id'')
                    \<or> \<not> truthy (own_prop ?razor ''razorpay_order_id'')
                    \<or> \<not> truthy (own_prop ?razor ''razorpay_signature''))"
    by simp
  show ?thesis
    using verify_missing_fields [OF h1 h2 h3] by simp
qed

text \<open>
  Claim C10. The answer of the verification depends on the \<^verbatim>\<open>razor\<close> payload and
  the stored secret only: two requests with the same \<^verbatim>\<open>razor\<close> get the same calls
  (none), status and body, whatever their booking, their other fields, their headers
  and the state of the providers.
\<close>

theorem verify_ignores_booking:
  assumes "\<not> nullish (body req)" and "\<not> nullish (body req')"
    and "own_prop (body req) ''razor'' = own_prop (body req') ''razor''"
  shows "verifyRazorpayPayment env w req = verifyRazorpayPayment env w' req'"
  using assms by (simp add: verifyRazorpayPayment_def verifyRazorpayPayment_try_def)

theorem verify_ignores_booking_witness:
  "verifyRazorpayPayment env_test world_down
     (razor_request (razor_payload ''pay_1'' ''order_1'' (JStr ''00ff''))
        (JObj [(''name'', JStr ''Asha''), (''services'', JArr [JObj [(''name'', JStr ''Facial'')]])])) =
   verifyRazorpayPayment env_test world_stub
     (razor_request (razor_payload ''pay_1'' ''order_1'' (JStr ''00ff'')) (JNum (Fin 7)))"
proof -
  let ?r = "razor_payload ''pay_1'' ''order_1'' (JStr ''00ff'')"
  let ?req = "razor_request ?r (JObj [(''name'', JStr ''Asha''), (''services'', JArr [JObj [(''name'', JStr ''Facial'')]])])"
  let ?req' = "razor_request ?r (JNum (Fin 7))"
  have h1: "\<not> nullish (body ?req)" and h2: "\<not> nullish (body ?req')"
    by (simp_all add: razor_request_def nullish_def)
  have h3: "own_prop (body ?req) ''razor'' = own_prop (body ?req') ''razor''"
    by (simp add: razor_request_def)
  show ?thesis
    using verify_ignores_booking [OF h1 h2 h3] .
qed

subsection \<open>Validation of the amount\<close>

text \<open>
  Claim C2. When the amount is missing (\<^verbatim>\<open>undefined\<close>), is not a number (its numeric
  value, the one \<^verbatim>\<open>isNaN\<close> tests, is \<open>NaN\<close>) or is at most zero, each of
  \<^verbatim>\<open>createRazorpayOrder\<close>, \<^verbatim>\<open>createStripeSession\<close> and \<^verbatim>\<open>createPaypalOrder\<close> answers
  HTTP 400 with a validation error, and its trace of outbound calls is empty: no
  provider call and no token exchange.
\<close>

theorem invalid_amount_rejected_without_call:
  assumes "\<not> nullish (body req)"
    and "own_prop (body req) ''amount'' = amount"
    and "amount = JUndefined \<or> to_number amount = Inr NaN
           \<or> (\<exists>n. to_number amount = Inr n \<and> js_le n (Fin 0))"
  shows "createRazorpayOrder env w req =
           ([], Responded \<lparr>status = 400,
                  json = JObj [(''error'', JStr ''Invalid amount. Send amount in rupees (number).'')]\<rparr>)
       \<and> createStripeSession env w req =
           ([], Responded \<lparr>status = 400,
                  json = JObj [(''error'', JStr ''Invalid amount. Send amount in rupees (number).'')]\<rparr>)
       \<and> createPaypalOrder env w req =
           ([], Responded \<lparr>status = 400, json = JObj [(''error'', JStr ''Invalid amount'')]\<rparr>)"
proof -
  have inv: "invalid_amount (own_prop (body req) ''amount'') = Inr True"
    using assms(2,3) invalid_amount_rejected by blast
  show ?thesis
    using assms(1) inv
    by (simp add: createRazorpayOrder_def createRazorpayOrder_try_def
        createStripeSession_def createStripeSession_try_def
        createPaypalOrder_def createPaypalOrder_try_def)
qed

text \<open>A missing amount, the amount \<^verbatim>\<open>"abc"\<close> and the amount \<^verbatim>\<open>-5\<close>, with working providers.\<close>

theorem invalid_amount_rejected_without_call_witness:
  "createPaypalOrder env_test world_stub empty_request =
     ([], Responded \<lparr>status = 400, json = JObj [(''error'', JStr ''Invalid amount'')]\<rparr>)
   \<and> createRazorpayOrder env_test world_stub (amount_request (JStr ''abc'')) =
     ([], Responded \<lparr>status = 400,
            json = JObj [(''error'', JStr ''Invalid amount. Send amount in rupees (number).'')]\<rparr>)
   \<and> createStripeSession env_test world_stub (amount_request (JNum (Fin (- 5)))) =
     ([], Responded \<lparr>status = 400,
            json = JObj [(''error'', JStr ''Invalid amount. Send amount in rupees (number).'')]\<rparr>)"
proof -
  have b: "\<not> nullish (body empty_request)" "\<not> nullish (body (amount_request a))" for a
    by (simp_all add: empty_request_def amount_request_def nullish_def)
  have a1: "own_prop (body empty_request) ''amount'' = JUndefined"
    by (simp add: empty_request_def)
  have a2: "own_prop (body (amount_request a)) ''amount'' = a" for a
    by (simp add: amount_request_def)
  have nan: "to_number (JStr ''abc'') = Inr NaN"
    by code_simp
  have neg: "\<exists>n. to_number (JNum (Fin (- 5))) = Inr n \<and> js_le n (Fin 0)"
    by simp
  show ?thesis
    using invalid_amount_rejected_without_call [OF b(1) a1, of env_test world_stub]
      invalid_amount_rejected_without_call [OF b(2) a2, of "JStr ''abc''" env_test world_stub]
      invalid_amount_rejected_without_call [OF b(2) a2, of "JNum (Fin (- 5))" env_test world_stub]
      nan neg
    by simp
qed

subsection \<open>Conversion to minor units\<close>




subsection \<open>The wallet gateway\<close>

text \<open>
  Claim C6. A capture request whose \<^verbatim>\<open>orderId\<close> is missing or empty (falsy) is
  answered with HTTP 400 and \<^verbatim>\<open>{success: false, error: 'Missing orderId'}\<close>, and its
  trace of outbound calls is empty: no token exchange is attempted.
\<close>

theorem capture_missing_orderId:
  assumes "\<not> nullish (body req)"
    and "\<not> truthy (own_prop (body req) ''orderId'')"
  shows "capturePaypalPayment env w req =
    ([], Responded \<lparr>status = 400,
           json = JObj [(''success'', JBool False), (''error'', JStr ''Missing orderId'')]\<rparr>)"
  using assms by (simp add: capturePaypalPayment_def capturePaypalPayment_try_def)

theorem capture_missing_orderId_witness:
  "capturePaypalPayment env_test world_stub empty_request =
     ([], Responded \<lparr>status = 400,
            json = JObj [(''success'', JBool False), (''error'', JStr ''Missing orderId'')]\<rparr>)
   \<and> capturePaypalPayment env_test world_stub \<lparr>body = JObj [(''orderId'', JStr [])], origin = None\<rparr> =
     ([], Responded \<lparr>status = 400,
            json = JObj [(''success'', JBool False), (''error'', JStr ''Missing orderId'')]\<rparr>)"
proof -
  have h1: "\<not> nullish (body empty_request)"
    and h2: "\<not> truthy (own_prop (body empty_request) ''orderId'')"
    by (simp_all add: empty_request_def nullish_def)
  have h3: "\<not> nullish (body \<lparr>body = JObj [(''orderId'', JStr [])], origin = None\<rparr>)"
    and h4: "\<not> truthy (own_prop (body \<lparr>body = JObj [(''orderId'', JStr [])], origin = None\<rparr>) ''orderId'')"
    by (simp_all add: nullish_def)
  show ?thesis
    using capture_missing_orderId [OF h1 h2, of env_test world_stub]
      capture_missing_orderId [OF h3 h4, of env_test world_stub]
    by simp
qed

text \<open>
  Claim C7, as amended. The claim promises the credentials error for every wallet
  operation attempted without credentials; the handlers validate the request first,
  and a request with no amount is answered 400 whatever the credentials (the
  counterexample below). For a request that passes validation (a valid amount for
  the order, an \<^verbatim>\<open>orderId\<close> for the capture), when the client id or the client
  secret is absent the handler answers HTTP 500 with a JSON body that names the
  failed operation and carries \<^verbatim>\<open>'PayPal credentials missing'\<close> as details; the
  handler answers (nothing is left unhandled), and its trace of calls is empty: no
  token exchange, no order creation, no capture.
\<close>

theorem paypal_credentials_missing:
  assumes "PAYPAL_CLIENT env = [] \<or> PAYPAL_SECRET env = []"
    and "\<not> nullish (body req)"
  shows "(invalid_amount (own_prop (body req) ''amount'') = Inr False \<longrightarrow>
            createPaypalOrder env w req =
              ([], Responded \<lparr>status = 500,
                     json = JObj [(''error'', JStr ''PayPal create order failed''),
                                  (''details'', JStr ''PayPal credentials missing'')]\<rparr>))
       \<and> (truthy (own_prop (body req) ''orderId'') \<longrightarrow>
            capturePaypalPayment env w req =
              ([], Responded \<lparr>status = 500,
                     json = JObj [(''success'', JBool False), (''error'', JStr ''PayPal capture failed''),
                                  (''details'', JStr ''PayPal credentials missing'')]\<rparr>))"
  using assms
  by (auto simp add: createPaypalOrder_def createPaypalOrder_try_def capturePaypalPayment_def
      capturePaypalPayment_try_def getPaypalToken_def paypal_details_def js_error_def js_or_def
      opt_prop_def nullish_def)

text \<open>
  An application that has started (the keys of the other two gateways are set, and
  the SDKs check them all) and has no wallet credentials: an order of 500 and a
  capture, both answered 500.
\<close>

theorem paypal_credentials_missing_witness:
  "payments_loads sdk_strict env_no_paypal
   \<and> createPaypalOrder env_no_paypal world_stub (amount_request (JNum (Fin 500))) =
     ([], Responded \<lparr>status = 500,
            json = JObj [(''error'', JStr ''PayPal create order failed''),
                         (''details'', JStr ''PayPal credentials missing'')]\<rparr>)
   \<and> capturePaypalPayment env_no_paypal world_stub
        \<lparr>body = JObj [(''orderId'', JStr ''5O190127TN'')], origin = None\<rparr> =
     ([], Responded \<lparr>status = 500,
            json = JObj [(''success'', JBool False), (''error'', JStr ''PayPal capture failed''),
                         (''details'', JStr ''PayPal credentials missing'')]\<rparr>)"
proof -
  have c: "PAYPAL_CLIENT env_no_paypal = [] \<or> PAYPAL_SECRET env_no_paypal = []"
    by (simp add: sample_keys)
  have h1: "\<not> nullish (body (amount_request (JNum (Fin 500))))"
    and h2: "invalid_amount (own_prop (body (amount_request (JNum (Fin 500)))) ''amount'') = Inr False"
    by (simp_all add: amount_request_def nullish_def invalid_amount_def)
  have h3: "\<not> nullish (body \<lparr>body = JObj [(''orderId'', JStr ''5O190127TN'')], origin = None\<rparr>)"
    and h4: "truthy (own_prop (body \<lparr>body = JObj [(''orderId'', JStr ''5O190127TN'')], origin = None\<rparr>) ''orderId'')"
    by (simp_all add: nullish_def)
  show ?thesis
    using paypal_credentials_missing [OF c h1, of world_stub] h2
      paypal_credentials_missing [OF c h3, of world_stub] h4 sample_loads
    by simp
qed

text \<open>
  The same application: \<^verbatim>\<open>POST /create-paypal-order\<close> with an empty body is answered
  400, not 500, though the wallet credentials are absent.
\<close>

theorem paypal_credentials_missing_counterexample:
  "PAYPAL_CLIENT env_no_paypal = [] \<and> PAYPAL_SECRET env_no_paypal = []
   \<and> app sdk_strict env_no_paypal world_stub ''POST'' ''/create-paypal-order'' empty_request =
       Handled ([], Responded \<lparr>status = 400, json = JObj [(''error'', JStr ''Invalid amount'')]\<rparr>)"
  by code_simp

subsection \<open>The card gateway\<close>

text \<open>
  Claim C8. For a request that reaches the creation of the session (a valid amount,
  a currency that is a string, a booking that is not \<^verbatim>\<open>null\<close>), exactly one
  session is created and the product name of its line item is \<^verbatim>\<open>Booking: \<close>
  followed by: the names of the services joined with a comma and a space when
  \<^verbatim>\<open>booking.services\<close> is an array; otherwise \<^verbatim>\<open>booking.name\<close> when it is present
  (truthy); otherwise \<^verbatim>\<open>Customer\<close>.
\<close>

theorem stripe_product_name:
  assumes "\<not> nullish (body req)"
    and "invalid_amount (own_prop (body req) ''amount'') = Inr False"
    and "lower_currency w (default_to (own_prop (body req) ''currency'') (JStr ''INR'')) = Inr cur"
    and "default_to (own_prop (body req) ''booking'') (JObj []) = booking"
    and "booking \<noteq> JNull"
    and "own_prop booking ''services'' = services"
    and "own_prop booking ''name'' = name"
  shows "(\<forall>names strs. Array_isArray services \<and> service_names (elements services) = Inr names
             \<and> elems_to_strings names = Inr strs \<longrightarrow>
           product_names_sent (fst (createStripeSession env w req)) =
             [JStr (''Booking: '' @ intercalate '', '' strs)])
       \<and> (\<forall>s. \<not> Array_isArray services \<and> truthy name \<and> to_string name = Inr s \<longrightarrow>
           product_names_sent (fst (createStripeSession env w req)) = [JStr (''Booking: '' @ s)])
       \<and> (\<not> Array_isArray services \<and> \<not> truthy name \<longrightarrow>
           product_names_sent (fst (createStripeSession env w req)) = [JStr ''Booking: Customer''])"
proof -
  have nn: "\<not> nullish booking"
    using assms(4,5) by (auto simp add: nullish_def default_to_def split: if_splits)
  obtain n where n: "to_number (own_prop (body req) ''amount'') = Inr n"
    using assms(2) by (auto simp add: invalid_amount_def split: if_splits sum.splits)
  have sent: "product_names_sent (fst (createStripeSession env w req)) = [JStr label]"
    if "product_name booking = Inr label" for label
    using assms(1-4) n that
    by (simp add: createStripeSession_def createStripeSession_try_def stripe_session_params_def
        Let_def split: sum.splits)
  show ?thesis
    using nn assms(6,7)
    by (auto intro!: sent simp add: product_name_def get_prop_def js_or_def)
qed

theorem stripe_product_name_witness:
  "product_names_sent (fst (createStripeSession env_test world_stub
       (booking_request (JObj [(''name'', JStr ''Asha''),
          (''services'', JArr [JObj [(''name'', JStr ''Facial'')], JObj [(''name'', JStr ''Hair spa'')]])])))) =
     [JStr ''Booking: Facial, Hair spa'']
   \<and> product_names_sent (fst (createStripeSession env_test world_stub
       (booking_request (JObj [(''name'', JStr ''Asha'')])))) = [JStr ''Booking: Asha'']
   \<and> product_names_sent (fst (createStripeSession env_test world_stub
       (booking_request (JObj [(''phone'', JStr ''98'')])))) = [JStr ''Booking: Customer'']"
proof -
  let ?b1 = "JObj [(''name'', JStr ''Asha''),
          (''services'', JArr [JObj [(''name'', JStr ''Facial'')], JObj [(''name'', JStr ''Hair spa'')]])]"
  let ?b2 = "JObj [(''name'', JStr ''Asha'')]"
  let ?b3 = "JObj [(''phone'', JStr ''98'')]"
  have inr: "lower_currency world_stub (JStr ''INR'') = Inr ''inr''"
    by code_simp
  have h1: "\<not> nullish (body (booking_request b))"
    and h2: "invalid_amount (own_prop (body (booking_request b)) ''amount'') = Inr False"
    and h3: "lower_currency world_stub
               (default_to (own_prop (body (booking_request b)) ''currency'') (JStr ''INR'')) = Inr ''inr''"
    for b
    using inr by (simp_all add: booking_request_def nullish_def invalid_amount_def default_to_def)
  have h4: "default_to (own_prop (body (booking_request (JObj kvs))) ''booking'') (JObj []) = JObj kvs"
    for kvs
    by (simp add: booking_request_def default_to_def)
  have e1: "service_names (elements (own_prop ?b1 ''services'')) = Inr [JStr ''Facial'', JStr ''Hair spa'']"
    by (simp add: get_prop_def nullish_def)
  have e2: "elems_to_strings [JStr ''Facial'', JStr ''Hair spa''] = Inr [''Facial'', ''Hair spa'']"
    by simp
  show ?thesis
    using stripe_product_name [OF h1 h2 h3 h4, of _ "own_prop ?b1 ''services''" "own_prop ?b1 ''name''" env_test] e1 e2
      stripe_product_name [OF h1 h2 h3 h4, of _ "own_prop ?b2 ''services''" "own_prop ?b2 ''name''" env_test]
      stripe_product_name [OF h1 h2 h3 h4, of _ "own_prop ?b3 ''services''" "own_prop ?b3 ''name''" env_test]
    by simp
qed

subsection \<open>Health\<close>

text \<open>
  Claim C9, as amended. The claim promises the answer whatever credentials are
  configured, none included; with no \<^verbatim>\<open>RAZORPAY_KEY_ID\<close> the Razorpay client cannot
  be built, \<^verbatim>\<open>payments.js\<close> does not load and the application never answers (the
  counterexample below). Once the modules have loaded, whatever the environment
  holds otherwise (the wallet credentials may be absent), whatever the providers do
  and whatever the request carries, a \<^verbatim>\<open>GET\<close> whose path is \<^verbatim>\<open>/health\<close> (in any
  case of its letters, with or without a trailing slash) is answered with HTTP 200
  and the body \<^verbatim>\<open>{ok: true}\<close>, and no outbound call is made.
\<close>

theorem health_ok_once_loaded:
  assumes "payments_loads k env"
    and "path_matches ''/health'' path"
  shows "app k env w ''GET'' path req =
     Handled ([], Responded \<lparr>status = 200, json = JObj [(''ok'', JBool True)]\<rparr>)"
proof -
  have post: "\<not> method_matches ''POST'' ''GET''"
    by (simp add: method_matches_def)
  have get: "method_matches ''GET'' ''GET''"
    by (simp add: method_matches_def)
  have "List.find (route_matches ''GET'' path) routes = Some (''GET'', Some ''/health'', health)"
    using assms(2) post get by (simp add: routes_def route_matches_def)
  then show ?thesis
    using assms(1) by (simp add: app_def health_def)
qed

text \<open>No wallet credentials; the path as registered, and in another case with a trailing slash.\<close>

theorem health_ok_once_loaded_witness:
  "app sdk_strict env_no_paypal world_down ''GET'' ''/health'' empty_request =
     Handled ([], Responded \<lparr>status = 200, json = JObj [(''ok'', JBool True)]\<rparr>)
   \<and> app sdk_strict env_no_paypal world_down ''GET'' ''/Health/'' empty_request =
     Handled ([], Responded \<lparr>status = 200, json = JObj [(''ok'', JBool True)]\<rparr>)"
proof -
  have p1: "path_matches ''/health'' ''/health''" and p2: "path_matches ''/health'' ''/Health/''"
    by code_simp+
  show ?thesis
    using health_ok_once_loaded [OF sample_loads(1) p1, of sdk_strict world_down empty_request]
      health_ok_once_loaded [OF sample_loads(1) p2, of sdk_strict world_down empty_request]
    by simp
qed

text \<open>
  No credentials at all, and SDKs that check as little as any release does: the
  modules do not load, \<^verbatim>\<open>GET /health\<close> is not answered.
\<close>

theorem health_ok_once_loaded_counterexample:
  "app sdk_lenient env_none world_stub ''GET'' ''/health'' empty_request = NotStarted"
  by (simp add: app_def payments_loads_def sample_keys)

end
